theory Spec2Isabelle
  imports Complex_Main "HOL-Library.Char_ord" "HOL-Library.List_Lexorder" "HOL-Library.Sublist"
    "HOL-Library.Extended_Nat" "HOL-Library.Multiset"
begin

section \<open>Payroll route handlers (app/routes.py)\<close>

text \<open>
  The handlers of \<^verbatim>\<open>app/routes.py\<close> that write staff and salary records are embedded as
  functions from the request and the persisted store to a response and the new store.

  \<^item> Numbers that Python holds as \<^verbatim>\<open>float\<close> are values of a type variable \<open>'n\<close>; the
    handlers only add two of them and compare one with zero, so every theorem holds for
    whatever arithmetic \<open>'n\<close> carries.
  \<^item> The Python builtins \<^verbatim>\<open>int\<close> and \<^verbatim>\<open>float\<close>, \<^verbatim>\<open>datetime.strptime\<close>, the helper
    \<^verbatim>\<open>utils.calculate_salary_components\<close> (imported, its file is not part of the sources),
    the primary key the database gives a new staff row and the outcome of every
    \<^verbatim>\<open>db.session.commit()\<close> are fields of an environment record: the theorems quantify
    over them.
  \<^item> A table is the list of its rows in insertion order; \<^verbatim>\<open>.first()\<close> of an unordered
    query is the first matching row of that list.
  \<^item> Every \<^verbatim>\<open>raise\<close> is a value: the \<^verbatim>\<open>try\<close> body of a handler returns either what a
    \<^verbatim>\<open>return\<close> statement returns or the exception together with the local variables the
    \<^verbatim>\<open>except\<close> branch and the final \<^verbatim>\<open>render_template\<close> read.
  \<^item> The session's pending changes live inside the handler; the store a handler returns
    is the committed one, so \<^verbatim>\<open>db.session.rollback()\<close> is returning the store as the
    last successful commit left it.
\<close>

subsection \<open>Data model\<close>

datatype error = ValueError | BadRequestKeyError | SQLAlchemyError | IllegalMonthError | HelperError

datatype meth = GET | POST

record user =
  is_authenticated :: bool
  is_admin :: bool
  is_accounts :: bool
  is_hr :: bool

text \<open>\<^verbatim>\<open>Staff\<close>: \<open>st_id\<close> is the primary key \<^verbatim>\<open>Staff.id\<close>, \<open>st_staff_id\<close> the number
  \<^verbatim>\<open>Staff.staff_id\<close> that starts at 1001.\<close>

record 'n staff =
  st_id :: int
  st_staff_id :: int
  st_name :: string
  st_category :: string
  st_department :: string
  st_designation :: string
  st_base_salary :: 'n
  st_allowances :: "'n option"
  st_deductions :: "'n option"
  st_date_joined :: "int \<times> int \<times> int"
  st_bank_account :: string
  st_aadhar :: string
  st_pf_number :: "string option"
  st_esi_number :: "string option"
  st_active :: bool

text \<open>\<^verbatim>\<open>SalaryRecord\<close>: \<open>staff_id\<close> refers to \<^verbatim>\<open>Staff.id\<close>. A column the constructor call
  does not set is \<open>None\<close>.\<close>

record 'n salary_record =
  staff_id :: int
  month :: int
  year :: int
  gross_salary :: 'n
  lop_days :: 'n
  lop_amount :: "'n option"
  epf :: "'n option"
  esi :: "'n option"
  it :: "'n option"
  loan :: "'n option"
  advance :: "'n option"
  uniform :: "'n option"
  cd :: "'n option"
  hostel :: "'n option"
  misc :: "'n option"
  total_deductions :: "'n option"
  total_reimbursements :: "'n option"
  net_salary :: "'n option"

record 'n db =
  staffs :: "'n staff list"
  salary_records :: "'n salary_record list"

text \<open>The \<^verbatim>\<open>deductions\<close> dictionary of \<^verbatim>\<open>d_r_page\<close>, one field per key.\<close>

record 'n deductions =
  d_it :: 'n
  d_loan :: 'n
  d_advance :: 'n
  d_uniform :: 'n
  d_cd :: 'n
  d_hostel :: 'n
  d_misc :: 'n

text \<open>The keyword arguments of \<^verbatim>\<open>calculate_salary_components\<close> and the keys of its result
  that \<^verbatim>\<open>d_r_page\<close> reads.\<close>

record 'n calc_args =
  arg_gross_salary :: 'n
  arg_lop_days :: 'n
  arg_deductions :: "'n deductions"
  arg_reimbursements :: "'n list"
  arg_month :: int
  arg_year :: int

record 'n calc_result =
  res_gross_salary :: 'n
  res_lop_amount :: 'n
  res_epf :: 'n
  res_esi :: 'n
  res_total_deductions :: 'n
  res_total_reimbursements :: 'n
  res_net_salary :: 'n

record 'n env =
  py_int :: "string \<Rightarrow> int option"
  py_float :: "string \<Rightarrow> 'n option"
  strptime_ymd :: "string \<Rightarrow> (int \<times> int \<times> int) option"
  calculate_salary_components :: "'n calc_args \<Rightarrow> error + 'n calc_result"
  next_pk :: "'n staff list \<Rightarrow> int"
  commit_ok :: "nat \<Rightarrow> bool"
  today :: "int \<times> int"

text \<open>\<open>commit_ok e k\<close>: the \<open>k\<close>-th \<^verbatim>\<open>db.session.commit()\<close> of the request succeeds
  (counted from 0). \<open>today e\<close> is (month, year) of \<^verbatim>\<open>date.today()\<close>.\<close>

subsection \<open>Requests and responses\<close>

text \<open>\<^verbatim>\<open>request.form\<close> is a multi-dict: \<^verbatim>\<open>get\<close> gives the first value of a key,
  \<^verbatim>\<open>getlist\<close> all of them.\<close>

type_synonym form = "(string \<times> string) list"

definition form_get :: "form \<Rightarrow> string \<Rightarrow> string option" where
  "form_get f k = map_of f k"

definition form_getlist :: "form \<Rightarrow> string \<Rightarrow> string list" where
  "form_getlist f k = map snd (filter (\<lambda>kv. fst kv = k) f)"

text \<open>Truth value of \<^verbatim>\<open>request.form.get(k)\<close>: \<^verbatim>\<open>None\<close> and the empty string are false.\<close>

definition truthy :: "string option \<Rightarrow> bool" where
  "truthy v = (case v of None \<Rightarrow> False | Some s \<Rightarrow> s \<noteq> [])"

text \<open>\<^verbatim>\<open>str.strip()\<close> leaves nothing exactly when every character is whitespace. A
  character of a string here is a code point up to 255; Python's whitespace among these
  is tab to carriage return, the four separators U+001C to U+001F, the space, U+0085
  and U+00A0.\<close>

definition is_space :: "char \<Rightarrow> bool" where
  "is_space c = (c \<in> set [CHR 0x09, CHR 0x0A, CHR 0x0B, CHR 0x0C, CHR 0x0D,
                           CHR 0x1C, CHR 0x1D, CHR 0x1E, CHR 0x1F, CHR 0x20,
                           CHR 0x85, CHR 0xA0])"

definition blank :: "string \<Rightarrow> bool" where
  "blank s = list_all is_space s"

text \<open>\<^verbatim>\<open>s.split('-')\<close>.\<close>

fun split_dash_acc :: "string \<Rightarrow> string \<Rightarrow> string list" where
  "split_dash_acc acc [] = [rev acc]"
| "split_dash_acc acc (c # cs) =
     (if c = CHR ''-'' then rev acc # split_dash_acc [] cs else split_dash_acc (c # acc) cs)"

definition split_dash :: "string \<Rightarrow> string list" where
  "split_dash s = split_dash_acc [] s"

text \<open>\<^verbatim>\<open>year, month = map(int, s.split('-'))\<close>: a \<^verbatim>\<open>ValueError\<close> unless there are exactly
  two parts and both are integers.\<close>

definition parse_month :: "('n, 'x) env_scheme \<Rightarrow> string \<Rightarrow> error + (int \<times> int)" where
  "parse_month e s =
     (case split_dash s of
        [a, b] \<Rightarrow>
          (case py_int e a of
             None \<Rightarrow> Inl ValueError
           | Some y \<Rightarrow> (case py_int e b of None \<Rightarrow> Inl ValueError | Some m \<Rightarrow> Inr (y, m)))
      | _ \<Rightarrow> Inl ValueError)"

text \<open>\<^verbatim>\<open>str(n)\<close> of an integer, for the form keys \<^verbatim>\<open>f'lop_{staff.id}'\<close>.\<close>

definition digit_char :: "nat \<Rightarrow> char" where
  "digit_char d = (''0123456789'' ! d)"

fun str_nat :: "nat \<Rightarrow> string" where
  "str_nat n = (if n < 10 then [digit_char n] else str_nat (n div 10) @ [digit_char (n mod 10)])"

declare str_nat.simps [simp del]

definition str_int :: "int \<Rightarrow> string" where
  "str_int i = (if i < 0 then CHR ''-'' # str_nat (nat (- i)) else str_nat (nat i))"

datatype flash_msg =
    Access_denied
  | Missing_selection
  | Invalid_staff
  | Salary_saved string int string
  | Error_saving error
  | Lop_updated string
  | Error_updating_lop error
  | Staff_added string int

type_synonym flash = "flash_msg \<times> string"

text \<open>What a handler answers. The arguments of \<^verbatim>\<open>render_template\<close> that are read straight
  from a query the handler does not change (\<^verbatim>\<open>staff_list\<close>) are left out.\<close>

datatype 'n page =
    Login_required
  | Redirect string
  | Render_d_r "'n calc_result option" "int option" "string option"
  | Render_lop string int int
  | Render_new_staff int
  | Internal_error error

type_synonym 'n response = "flash list \<times> 'n page"

subsection \<open>Deductions and reimbursements: \<^verbatim>\<open>d_r_page\<close>\<close>

text \<open>\<^verbatim>\<open>x or 0\<close> for a nullable number: \<^verbatim>\<open>None\<close> and zero give 0.\<close>

definition or_zero :: "'n::zero option \<Rightarrow> 'n" where
  "or_zero v = (case v of None \<Rightarrow> 0 | Some a \<Rightarrow> if a = 0 then 0 else a)"

text \<open>\<^verbatim>\<open>float(request.form.get(k, 0))\<close>: an absent field is \<^verbatim>\<open>float(0)\<close>; a present one
  is parsed, the empty string included, and raises when it is no number.\<close>

definition float_field :: "('n::zero, 'x) env_scheme \<Rightarrow> form \<Rightarrow> string \<Rightarrow> error + 'n" where
  "float_field e f k =
     (case form_get f k of
        None \<Rightarrow> Inr 0
      | Some s \<Rightarrow> (case py_float e s of None \<Rightarrow> Inl ValueError | Some v \<Rightarrow> Inr v))"

definition bind_err :: "error + 'a \<Rightarrow> ('a \<Rightarrow> error + 'b) \<Rightarrow> error + 'b" where
  "bind_err x g = (case x of Inl err \<Rightarrow> Inl err | Inr v \<Rightarrow> g v)"

text \<open>Lines 260-268, the dictionary's values in the order they are evaluated.\<close>

definition parse_deductions :: "('n::zero, 'x) env_scheme \<Rightarrow> form \<Rightarrow> error + 'n deductions" where
  "parse_deductions e f =
     bind_err (float_field e f ''income_tax'') (\<lambda>v_it.
     bind_err (float_field e f ''loan'') (\<lambda>v_loan.
     bind_err (float_field e f ''advance'') (\<lambda>v_advance.
     bind_err (float_field e f ''uniform'') (\<lambda>v_uniform.
     bind_err (float_field e f ''cd'') (\<lambda>v_cd.
     bind_err (float_field e f ''hostel'') (\<lambda>v_hostel.
     bind_err (float_field e f ''misc'') (\<lambda>v_misc.
       Inr \<lparr>d_it = v_it, d_loan = v_loan, d_advance = v_advance, d_uniform = v_uniform,
            d_cd = v_cd, d_hostel = v_hostel, d_misc = v_misc\<rparr>)))))))"

text \<open>Lines 269-273: entries that are empty or blank are skipped, the others parsed.\<close>

fun float_all :: "('n, 'x) env_scheme \<Rightarrow> string list \<Rightarrow> error + 'n list" where
  "float_all e [] = Inr []"
| "float_all e (x # xs) =
     (case py_float e x of
        None \<Rightarrow> Inl ValueError
      | Some v \<Rightarrow> bind_err (float_all e xs) (\<lambda>vs. Inr (v # vs)))"

definition parse_reimbursements :: "('n, 'x) env_scheme \<Rightarrow> form \<Rightarrow> error + 'n list" where
  "parse_reimbursements e f =
     float_all e (filter (\<lambda>x. x \<noteq> [] \<and> \<not> blank x) (form_getlist f ''reimbursement_amount[]''))"

definition key_match :: "int \<Rightarrow> int \<Rightarrow> int \<Rightarrow> ('n, 'x) salary_record_scheme \<Rightarrow> bool" where
  "key_match sid m y r = (staff_id r = sid \<and> month r = m \<and> year r = y)"

text \<open>Lines 237-273 of the \<^verbatim>\<open>try\<close> body: everything up to the call of
  \<^verbatim>\<open>calculate_salary_components\<close>. \<open>Ready\<close> holds \<^verbatim>\<open>staff\<close>, \<^verbatim>\<open>existing_record\<close>, the
  arguments of the call, \<^verbatim>\<open>selected_staff_id\<close> and \<^verbatim>\<open>month_str\<close>; \<open>Gather_raised\<close> the
  exception with \<^verbatim>\<open>selected_staff_id\<close> and \<^verbatim>\<open>selected_month\<close> as assigned so far.
  \<^verbatim>\<open>Staff.query.get(staff_db_id)\<close> is the staff row whose primary key is the integer
  that \<^verbatim>\<open>int(staff_db_id)\<close> has just read.\<close>

datatype 'n gathered =
    Gather_missing
  | Gather_invalid_staff
  | Gather_raised error "int option" "string option"
  | Ready "'n staff" "'n salary_record option" "'n calc_args" int string

definition d_r_gather ::
  "('n::{zero,plus}, 'x) env_scheme \<Rightarrow> form \<Rightarrow> 'n db \<Rightarrow> 'n gathered" where
  "d_r_gather e f db =
     (let staff_db_id = form_get f ''employee_name''; month_str = form_get f ''salary_month'' in
      if \<not> (truthy staff_db_id \<and> truthy month_str) then Gather_missing
      else
        (case (staff_db_id, month_str) of
           (Some sid_str, Some ms) \<Rightarrow>
             (case parse_month e ms of
                Inl err \<Rightarrow> Gather_raised err None None
              | Inr (y, m) \<Rightarrow>
                  (case py_int e sid_str of
                     None \<Rightarrow> Gather_raised ValueError None (Some ms)
                   | Some sid \<Rightarrow>
                       (case find (\<lambda>s. st_id s = sid) (staffs db) of
                          None \<Rightarrow> Gather_invalid_staff
                        | Some staff \<Rightarrow>
                            (let existing_record =
                                   find (key_match (st_id staff) m y) (salary_records db);
                                 lop = (case existing_record of
                                          None \<Rightarrow> 0 | Some r \<Rightarrow> lop_days r);
                                 gross = st_base_salary staff + or_zero (st_allowances staff)
                             in case parse_deductions e f of
                                  Inl err \<Rightarrow> Gather_raised err (Some sid) (Some ms)
                                | Inr ded \<Rightarrow>
                                    (case parse_reimbursements e f of
                                       Inl err \<Rightarrow> Gather_raised err (Some sid) (Some ms)
                                     | Inr reimb \<Rightarrow>
                                         Ready staff existing_record
                                           \<lparr>arg_gross_salary = gross, arg_lop_days = lop,
                                            arg_deductions = ded, arg_reimbursements = reimb,
                                            arg_month = m, arg_year = y\<rparr>
                                           sid ms)))))
         | _ \<Rightarrow> Gather_missing))"

text \<open>Lines 290-309: the fresh \<^verbatim>\<open>SalaryRecord\<close>.\<close>

definition d_r_record ::
  "'n staff \<Rightarrow> 'n calc_args \<Rightarrow> 'n calc_result \<Rightarrow> 'n salary_record" where
  "d_r_record staff a result =
     \<lparr>staff_id = st_id staff, month = arg_month a, year = arg_year a,
      gross_salary = res_gross_salary result,
      lop_days = arg_lop_days a,
      lop_amount = Some (res_lop_amount result),
      epf = Some (res_epf result),
      esi = Some (res_esi result),
      it = Some (d_it (arg_deductions a)),
      loan = Some (d_loan (arg_deductions a)),
      advance = Some (d_advance (arg_deductions a)),
      uniform = Some (d_uniform (arg_deductions a)),
      cd = Some (d_cd (arg_deductions a)),
      hostel = Some (d_hostel (arg_deductions a)),
      misc = Some (d_misc (arg_deductions a)),
      total_deductions = Some (res_total_deductions result),
      total_reimbursements = Some (res_total_reimbursements result),
      net_salary = Some (res_net_salary result)\<rparr>"

text \<open>Lines 285-312: the existing record is deleted and the deletion committed, then the
  fresh record is added and committed. \<open>None\<close>: both went through; \<open>Some err\<close>: a commit
  raised, and the store is what the commits before it left. The row deleted is the row
  the query returned, the first of the table with the key; \<open>remove1\<close> takes out the
  first row equal to it, which is that row.\<close>

definition d_r_save ::
  "('n, 'x) env_scheme \<Rightarrow> 'n salary_record option \<Rightarrow> 'n salary_record \<Rightarrow> 'n db
     \<Rightarrow> error option \<times> 'n db" where
  "d_r_save e existing_record record db =
     (case existing_record of
        Some old \<Rightarrow>
          if commit_ok e 0 then
            (let db1 = db\<lparr>salary_records := remove1 old (salary_records db)\<rparr> in
             if commit_ok e 1
             then (None, db1\<lparr>salary_records := salary_records db1 @ [record]\<rparr>)
             else (Some SQLAlchemyError, db1))
          else (Some SQLAlchemyError, db)
      | None \<Rightarrow>
          if commit_ok e 0
          then (None, db\<lparr>salary_records := salary_records db @ [record]\<rparr>)
          else (Some SQLAlchemyError, db))"

text \<open>The \<^verbatim>\<open>try\<close> body, lines 237-324. \<open>Saved\<close> is the \<^verbatim>\<open>return\<close> of line 317 with
  \<^verbatim>\<open>staff\<close>, \<^verbatim>\<open>month_str\<close>, \<^verbatim>\<open>result\<close> and \<^verbatim>\<open>selected_staff_id\<close>; \<open>Raised\<close> an
  exception with \<^verbatim>\<open>result\<close>, \<^verbatim>\<open>selected_staff_id\<close> and \<^verbatim>\<open>selected_month\<close> as they are
  when it is raised.\<close>

datatype 'n d_r_outcome =
    Missing
  | No_staff
  | Saved "'n staff" string "'n calc_result" int
  | Raised error "'n calc_result option" "int option" "string option"

definition d_r_post ::
  "('n::{zero,plus}, 'x) env_scheme \<Rightarrow> form \<Rightarrow> 'n db \<Rightarrow> 'n d_r_outcome \<times> 'n db" where
  "d_r_post e f db =
     (case d_r_gather e f db of
        Gather_missing \<Rightarrow> (Missing, db)
      | Gather_invalid_staff \<Rightarrow> (No_staff, db)
      | Gather_raised err sel_id sel_month \<Rightarrow> (Raised err None sel_id sel_month, db)
      | Ready staff existing_record a sid ms \<Rightarrow>
          (case calculate_salary_components e a of
             Inl err \<Rightarrow> (Raised err None (Some sid) (Some ms), db)
           | Inr result \<Rightarrow>
               (case d_r_save e existing_record (d_r_record staff a result) db of
                  (Some err, db') \<Rightarrow> (Raised err (Some result) (Some sid) (Some ms), db')
                | (None, db') \<Rightarrow> (Saved staff ms result sid, db'))))"

text \<open>The handler: \<^verbatim>\<open>@login_required\<close>, the role check, the \<^verbatim>\<open>try\<close> body with its
  \<^verbatim>\<open>except\<close> branch (rollback, error flash, fall through to the last
  \<^verbatim>\<open>render_template\<close>), and the plain \<^verbatim>\<open>GET\<close>.\<close>

definition d_r_page ::
  "('n::{zero,plus}, 'x) env_scheme \<Rightarrow> user \<Rightarrow> meth \<Rightarrow> form \<Rightarrow> 'n db \<Rightarrow> 'n response \<times> 'n db" where
  "d_r_page e u m f db =
     (if \<not> is_authenticated u then (([], Login_required), db)
      else if \<not> is_accounts u \<and> \<not> is_admin u
      then (([(Access_denied, ''error'')], Redirect ''routes.dashboard''), db)
      else if m = POST then
        (case d_r_post e f db of
           (Missing, db') \<Rightarrow>
             (([(Missing_selection, ''error'')], Redirect ''routes.d_r_page''), db')
         | (No_staff, db') \<Rightarrow>
             (([(Invalid_staff, ''error'')], Redirect ''routes.d_r_page''), db')
         | (Saved staff ms result sid, db') \<Rightarrow>
             (([(Salary_saved (st_name staff) (st_staff_id staff) ms, ''success'')],
               Render_d_r (Some result) (Some sid) (Some ms)), db')
         | (Raised err result sel_id sel_month, db') \<Rightarrow>
             (([(Error_saving err, ''error'')], Render_d_r result sel_id sel_month), db'))
      else (([], Render_d_r None None None), db))"

subsection \<open>Loss of pay: \<^verbatim>\<open>lop_page\<close>\<close>

text \<open>Lines 173-179: the record \<^verbatim>\<open>lop_page\<close> creates when none exists for the key.\<close>

definition lop_record :: "'n::{zero,plus} staff \<Rightarrow> int \<Rightarrow> int \<Rightarrow> 'n \<Rightarrow> 'n salary_record" where
  "lop_record staff m y days =
     \<lparr>staff_id = st_id staff, month = m, year = y,
      gross_salary = st_base_salary staff + or_zero (st_allowances staff),
      lop_days = days,
      lop_amount = None, epf = None, esi = None, it = None, loan = None, advance = None,
      uniform = None, cd = None, hostel = None, misc = None, total_deductions = None,
      total_reimbursements = None, net_salary = None\<rparr>"

fun update_first :: "('a \<Rightarrow> bool) \<Rightarrow> ('a \<Rightarrow> 'a) \<Rightarrow> 'a list \<Rightarrow> 'a list" where
  "update_first P g [] = []"
| "update_first P g (x # xs) = (if P x then g x # xs else x # update_first P g xs)"

text \<open>Lines 164-180: the existing record gets the new \<^verbatim>\<open>lop_days\<close> assigned, or a new
  record is added to the session.\<close>

definition lop_store ::
  "'n::{zero,plus} staff \<Rightarrow> int \<Rightarrow> int \<Rightarrow> 'n \<Rightarrow> 'n salary_record list \<Rightarrow> 'n salary_record list" where
  "lop_store staff m y days recs =
     (case find (key_match (st_id staff) m y) recs of
        Some record \<Rightarrow>
          update_first (key_match (st_id staff) m y) (\<lambda>r. r\<lparr>lop_days := days\<rparr>) recs
      | None \<Rightarrow> recs @ [lop_record staff m y days])"

text \<open>The loop of lines 160-180 over \<^verbatim>\<open>staff_list\<close>; the records are the session's view
  (the committed rows with the changes made so far).\<close>

fun lop_loop ::
  "('n::{zero,plus}, 'x) env_scheme \<Rightarrow> form \<Rightarrow> int \<Rightarrow> int \<Rightarrow> 'n staff list
     \<Rightarrow> 'n salary_record list \<Rightarrow> error + 'n salary_record list" where
  "lop_loop e f m y [] recs = Inr recs"
| "lop_loop e f m y (staff # rest) recs =
     (case form_get f (''lop_'' @ str_int (st_id staff)) of
        None \<Rightarrow> lop_loop e f m y rest recs
      | Some lop_value \<Rightarrow>
          if lop_value \<noteq> [] \<and> \<not> blank lop_value then
            (case py_float e lop_value of
               None \<Rightarrow> Inl ValueError
             | Some days \<Rightarrow> lop_loop e f m y rest (lop_store staff m y days recs))
          else lop_loop e f m y rest recs)"

text \<open>\<^verbatim>\<open>f"{year}-{month:02d}"\<close>.\<close>

definition month_string :: "int \<Rightarrow> int \<Rightarrow> string" where
  "month_string y m =
     str_int y @ ''-'' @ (if 0 \<le> m \<and> m < 10 then CHR ''0'' # str_int m else str_int m)"

text \<open>Lines 151-156: the month of the request, or today's. \<open>f\<close> is \<^verbatim>\<open>request.form\<close>,
  \<open>q\<close> is \<^verbatim>\<open>request.args\<close>. The result is \<^verbatim>\<open>selected_month_str\<close>, \<^verbatim>\<open>year\<close> and
  \<^verbatim>\<open>month\<close>.\<close>

definition lop_period ::
  "('n, 'x) env_scheme \<Rightarrow> form \<Rightarrow> form \<Rightarrow> error + (string \<times> int \<times> int)" where
  "lop_period e f q =
     (let selected = (if truthy (form_get f ''lop_month'') then form_get f ''lop_month''
                      else form_get q ''month'')
      in if truthy selected then
           (case selected of
              Some s \<Rightarrow>
                (case parse_month e s of
                   Inl err \<Rightarrow> Inl err
                 | Inr (y, m) \<Rightarrow> Inr (s, y, m))
            | None \<Rightarrow> Inl ValueError)
         else Inr (month_string (snd (today e)) (fst (today e)), snd (today e), fst (today e)))"

text \<open>Lines 159-186, the \<^verbatim>\<open>try\<close> with its \<^verbatim>\<open>except\<close>: the loop, then one commit. An
  exception of the loop or of the commit rolls everything back. \<^verbatim>\<open>staff_list\<close> (line
  147) is the active staff in ascending order of the name, staff of the same name in
  table order.\<close>

definition lop_post ::
  "('n::{zero,plus}, 'x) env_scheme \<Rightarrow> form \<Rightarrow> int \<Rightarrow> int \<Rightarrow> 'n db \<Rightarrow> error option \<times> 'n db" where
  "lop_post e f m y db =
     (let staff_list = sort_key st_name (filter st_active (staffs db)) in
      case lop_loop e f m y staff_list (salary_records db) of
        Inl err \<Rightarrow> (Some err, db)
      | Inr recs \<Rightarrow>
          if commit_ok e 0 then (None, db\<lparr>salary_records := recs\<rparr>)
          else (Some SQLAlchemyError, db))"

text \<open>The handler. The month is parsed outside the \<^verbatim>\<open>try\<close>: its \<^verbatim>\<open>ValueError\<close> leaves
  the handler.\<close>

definition lop_page ::
  "('n::{zero,plus}, 'x) env_scheme \<Rightarrow> user \<Rightarrow> meth \<Rightarrow> form \<Rightarrow> form \<Rightarrow> 'n db
     \<Rightarrow> 'n response \<times> 'n db" where
  "lop_page e u mt f q db =
     (if \<not> is_authenticated u then (([], Login_required), db)
      else if \<not> is_hr u \<and> \<not> is_admin u
      then (([(Access_denied, ''error'')], Redirect ''routes.dashboard''), db)
      else
        (case lop_period e f q of
           Inl err \<Rightarrow> (([], Internal_error err), db)
         | Inr (selected_month_str, y, m) \<Rightarrow>
             if mt = POST then
               (case lop_post e f m y db of
                  (Some err, db') \<Rightarrow>
                    (([(Error_updating_lop err, ''error'')],
                      Render_lop selected_month_str y m), db')
                | (None, db') \<Rightarrow>
                    (([(Lop_updated selected_month_str, ''success'')],
                      Render_lop selected_month_str y m), db'))
             else (([], Render_lop selected_month_str y m), db)))"

subsection \<open>New staff: \<^verbatim>\<open>new_staff\<close>\<close>

text \<open>Lines 108-109: \<^verbatim>\<open>last_staff\<close> is the row with the greatest \<^verbatim>\<open>staff_id\<close>.\<close>

definition next_staff_id :: "'n staff list \<Rightarrow> int" where
  "next_staff_id ss =
     (case ss of [] \<Rightarrow> 1001 | s # rest \<Rightarrow> Max (set (map st_staff_id (s # rest))) + 1)"

text \<open>\<^verbatim>\<open>request.form[k]\<close> raises when the key is absent.\<close>

definition form_item :: "form \<Rightarrow> string \<Rightarrow> error + string" where
  "form_item f k = (case form_get f k of None \<Rightarrow> Inl BadRequestKeyError | Some s \<Rightarrow> Inr s)"

text \<open>\<^verbatim>\<open>float(v or 0)\<close> for a form value: absent and empty give \<^verbatim>\<open>float(0)\<close>.\<close>

definition float_or_zero :: "('n::zero, 'x) env_scheme \<Rightarrow> string option \<Rightarrow> error + 'n" where
  "float_or_zero e v =
     (if truthy v then
        (case v of
           Some s \<Rightarrow> (case py_float e s of None \<Rightarrow> Inl ValueError | Some x \<Rightarrow> Inr x)
         | None \<Rightarrow> Inr 0)
      else Inr 0)"

text \<open>Lines 112-127: the constructor call, its arguments evaluated in order.\<close>

definition staff_of_form ::
  "('n::zero, 'x) env_scheme \<Rightarrow> form \<Rightarrow> 'n staff list \<Rightarrow> error + 'n staff" where
  "staff_of_form e f ss =
     bind_err (form_item f ''name'') (\<lambda>v_name.
     bind_err (form_item f ''category'') (\<lambda>v_category.
     bind_err (form_item f ''department'') (\<lambda>v_department.
     bind_err (form_item f ''designation'') (\<lambda>v_designation.
     bind_err (form_item f ''base_salary'') (\<lambda>s_base.
     bind_err (float_or_zero e (Some s_base)) (\<lambda>v_base.
     bind_err (float_or_zero e (form_get f ''allowances'')) (\<lambda>v_allowances.
     bind_err (float_or_zero e (form_get f ''deductions'')) (\<lambda>v_deductions.
     bind_err (form_item f ''date_joined'') (\<lambda>s_date.
     bind_err (case strptime_ymd e s_date of None \<Rightarrow> Inl ValueError | Some d \<Rightarrow> Inr d) (\<lambda>v_date.
     bind_err (form_item f ''bank_account'') (\<lambda>v_bank.
     bind_err (form_item f ''aadhar'') (\<lambda>v_aadhar.
       Inr \<lparr>st_id = next_pk e ss, st_staff_id = next_staff_id ss, st_name = v_name,
            st_category = v_category, st_department = v_department,
            st_designation = v_designation, st_base_salary = v_base,
            st_allowances = Some v_allowances, st_deductions = Some v_deductions,
            st_date_joined = v_date, st_bank_account = v_bank, st_aadhar = v_aadhar,
            st_pf_number = form_get f ''pf_number'', st_esi_number = form_get f ''esi_number'',
            st_active = (form_get f ''active'' = Some ''on'')\<rparr>))))))))))))"

text \<open>The handler; it has no \<^verbatim>\<open>try\<close>, so an exception leaves it with nothing committed.\<close>

definition new_staff ::
  "('n::zero, 'x) env_scheme \<Rightarrow> user \<Rightarrow> meth \<Rightarrow> form \<Rightarrow> 'n db \<Rightarrow> 'n response \<times> 'n db" where
  "new_staff e u mt f db =
     (if \<not> is_authenticated u then (([], Login_required), db)
      else if \<not> is_admin u \<and> \<not> is_accounts u
      then (([(Access_denied, ''error'')], Redirect ''routes.dashboard''), db)
      else if mt = POST then
        (case staff_of_form e f (staffs db) of
           Inl err \<Rightarrow> (([], Internal_error err), db)
         | Inr staff \<Rightarrow>
             if commit_ok e 0
             then (([(Staff_added (st_name staff) (st_staff_id staff), ''success'')],
                    Redirect ''routes.staff_details''), db\<lparr>staffs := staffs db @ [staff]\<rparr>)
             else (([], Internal_error SQLAlchemyError), db))
      else (([], Render_new_staff (next_staff_id (staffs db))), db))"

subsection \<open>The stores the handlers can produce\<close>

definition empty_db :: "'n db" where
  "empty_db = \<lparr>staffs = [], salary_records = []\<rparr>"

text \<open>Only \<^verbatim>\<open>new_staff\<close>, \<^verbatim>\<open>lop_page\<close> and \<^verbatim>\<open>d_r_page\<close> write staff or salary records;
  a reachable store is what any sequence of their requests, one after the other, leaves
  of the empty one.\<close>

inductive reachable :: "('n::{zero,plus}) db \<Rightarrow> bool" where
  start: "reachable empty_db"
| by_new_staff: "reachable db \<Longrightarrow> reachable (snd (new_staff (e :: 'n env) u mt f db))"
| by_lop_page: "reachable db \<Longrightarrow> reachable (snd (lop_page (e :: 'n env) u mt f q db))"
| by_d_r_page: "reachable db \<Longrightarrow> reachable (snd (d_r_page (e :: 'n env) u mt f db))"

text \<open>The key of a salary record.\<close>

definition rec_key :: "('n, 'x) salary_record_scheme \<Rightarrow> int \<times> int \<times> int" where
  "rec_key r = (staff_id r, month r, year r)"

text \<open>Every salary record carries the gross pay of its staff member: base salary plus
  allowances, the allowances counted as 0 when absent.\<close>

definition gross_ok :: "'n::{zero,plus} staff list \<Rightarrow> 'n salary_record \<Rightarrow> bool" where
  "gross_ok ss r =
     list_ex (\<lambda>s. st_id s = staff_id r
                \<and> gross_salary r = st_base_salary s + or_zero (st_allowances s)) ss"

definition all_gross_ok :: "'n::{zero,plus} db \<Rightarrow> bool" where
  "all_gross_ok db = list_all (gross_ok (staffs db)) (salary_records db)"


text \<open>The arguments \<^verbatim>\<open>d_r_page\<close> calls \<^verbatim>\<open>calculate_salary_components\<close> with, if it
  gets that far.\<close>

definition call_args :: "'n gathered \<Rightarrow> 'n calc_args option" where
  "call_args g = (case g of Ready staff existing_record a sid ms \<Rightarrow> Some a | _ \<Rightarrow> None)"

subsection \<open>\<^verbatim>\<open>calendar.monthrange\<close>\<close>

text \<open>The day count \<^verbatim>\<open>calendar.monthrange(year, month)[1]\<close> that the overview and the
  export read (lines 360 and 394).\<close>

definition isleap :: "int \<Rightarrow> bool" where
  "isleap y = (y mod 4 = 0 \<and> (y mod 100 \<noteq> 0 \<or> y mod 400 = 0))"

definition mdays :: "nat list" where
  "mdays = [0, 31, 28, 31, 30, 31, 30, 31, 31, 30, 31, 30, 31]"

definition days_in_month :: "int \<Rightarrow> int \<Rightarrow> error + nat" where
  "days_in_month y m =
     (if 1 \<le> m \<and> m \<le> 12
      then Inr (mdays ! nat m + (if m = 2 \<and> isleap y then 1 else 0))
      else Inl IllegalMonthError)"

section \<open>The computation engine and the slab resolver of the specification\<close>

text \<open>
  \<^verbatim>\<open>utils.py\<close>, where \<^verbatim>\<open>calculate_salary_components\<close> lives, is not among the sources, and
  no source file holds a slab lookup: \<^verbatim>\<open>routes.py\<close> only adds, lists and deletes slabs.
  The two definitions below follow sections 4.1 and 4.2 of the specification. What the
  specification leaves open is a parameter: the EPF and ESI rates, the ESI ceiling, the
  base (gross, or gross less loss of pay), the two-decimal rounding, and the bound
  convention of a slab.
\<close>

record params =
  rate_epf :: rat
  rate_esi :: rat
  esi_ceiling :: rat
  base_after_lop :: bool
  round2 :: "rat \<Rightarrow> rat"

record breakdown =
  b_gross_salary :: rat
  b_lop_amount :: rat
  b_epf :: rat
  b_esi :: rat
  b_deductions :: "rat deductions"
  b_total_deductions :: rat
  b_total_reimbursements :: rat
  b_net_salary :: rat

definition sum_named :: "'n::plus deductions \<Rightarrow> 'n" where
  "sum_named d = d_it d + d_loan d + d_advance d + d_uniform d + d_cd d + d_hostel d + d_misc d"

text \<open>Modelled from the spec: \<^verbatim>\<open>compute\<close> of section 4.1 (the code is
  \<^verbatim>\<open>utils.calculate_salary_components\<close>, missing from the sources). Invalid input is
  rejected, as section 7 asks.\<close>

definition compute ::
  "params \<Rightarrow> rat \<Rightarrow> rat \<Rightarrow> rat deductions \<Rightarrow> rat list \<Rightarrow> int \<Rightarrow> int \<Rightarrow> error + breakdown" where
  "compute p gross lop ded reimb m y =
     (case days_in_month y m of
        Inl err \<Rightarrow> Inl err
      | Inr ndays \<Rightarrow>
          if gross < 0 \<or> lop < 0 \<or> of_nat ndays < lop then Inl ValueError
          else
            (let per_day_rate = gross / of_nat ndays;
                 lop_amt = round2 p (per_day_rate * lop);
                 base = (if base_after_lop p then gross - lop_amt else gross);
                 v_epf = rate_epf p * base;
                 v_esi = (if base \<le> esi_ceiling p then rate_esi p * base else 0);
                 total_ded = lop_amt + v_epf + v_esi + sum_named ded;
                 total_reimb = sum_list reimb
             in Inr \<lparr>b_gross_salary = gross, b_lop_amount = lop_amt, b_epf = v_epf,
                     b_esi = v_esi, b_deductions = ded, b_total_deductions = total_ded,
                     b_total_reimbursements = total_reimb,
                     b_net_salary = gross - total_ded + total_reimb\<rparr>))"

text \<open>A tax slab: the three columns of \<^verbatim>\<open>ProfessionalTax\<close> (lines 536-540).\<close>

record ('a, 'n) slab =
  range_from :: 'a
  range_to :: 'a
  tax_amount :: 'n

text \<open>The scan of a slab list from its head: the tax of the first slab that covers the
  amount, 0 when none does.\<close>

fun scan_slabs :: "(('a, 'n) slab \<Rightarrow> 'a \<Rightarrow> bool) \<Rightarrow> 'a \<Rightarrow> ('a, 'n::zero) slab list \<Rightarrow> 'n" where
  "scan_slabs covers amount [] = 0"
| "scan_slabs covers amount (s # rest) =
     (if covers s amount then tax_amount s else scan_slabs covers amount rest)"

text \<open>Modelled from the spec: \<^verbatim>\<open>find_slab\<close> of section 4.2 (no source file holds it).
  The slabs are put in ascending \<open>range_from\<close> order, as the query of line 547 lists them,
  and scanned. \<open>covers\<close> is the bound convention.\<close>

definition find_slab ::
  "(('a::linorder, 'n) slab \<Rightarrow> 'a \<Rightarrow> bool) \<Rightarrow> 'a \<Rightarrow> ('a, 'n::zero) slab list \<Rightarrow> 'n" where
  "find_slab covers amount slabs = scan_slabs covers amount (sort_key range_from slabs)"

text \<open>The two conventions the specification names.\<close>

definition covers_closed :: "('a::linorder, 'n) slab \<Rightarrow> 'a \<Rightarrow> bool" where
  "covers_closed s amount = (range_from s \<le> amount \<and> amount \<le> range_to s)"

definition covers_half_open :: "('a::linorder, 'n) slab \<Rightarrow> 'a \<Rightarrow> bool" where
  "covers_half_open s amount = (range_from s \<le> amount \<and> amount < range_to s)"

section \<open>Concrete requests\<close>

text \<open>An environment to run the handlers on: \<^verbatim>\<open>int\<close> and \<^verbatim>\<open>float\<close> read an optional minus
  sign and ASCII digits (a part of what Python reads), every commit succeeds, and the
  helper returns the gross pay it is given, no loss of pay and no statutory deduction,
  and the totals of section 4.1.\<close>

definition digit_val :: "char \<Rightarrow> nat option" where
  "digit_val c = map_of (zip ''0123456789'' [0, 1, 2, 3, 4, 5, 6, 7, 8, 9]) c"

fun digits_val :: "nat \<Rightarrow> string \<Rightarrow> nat option" where
  "digits_val acc [] = Some acc"
| "digits_val acc (c # cs) =
     (case digit_val c of None \<Rightarrow> None | Some d \<Rightarrow> digits_val (10 * acc + d) cs)"

definition ascii_int :: "string \<Rightarrow> int option" where
  "ascii_int s =
     (case s of
        [] \<Rightarrow> None
      | c # cs \<Rightarrow>
          if c = CHR ''-'' then
            (if cs = [] then None else map_option (\<lambda>n. - int n) (digits_val 0 cs))
          else map_option int (digits_val 0 s))"

definition ascii_date :: "string \<Rightarrow> (int \<times> int \<times> int) option" where
  "ascii_date s =
     (case map ascii_int (split_dash s) of
        [Some y, Some m, Some d] \<Rightarrow> Some (y, m, d)
      | _ \<Rightarrow> None)"

definition sample_calc :: "int calc_args \<Rightarrow> error + int calc_result" where
  "sample_calc a =
     Inr \<lparr>res_gross_salary = arg_gross_salary a, res_lop_amount = 0, res_epf = 0, res_esi = 0,
          res_total_deductions = sum_named (arg_deductions a),
          res_total_reimbursements = sum_list (arg_reimbursements a),
          res_net_salary = arg_gross_salary a - sum_named (arg_deductions a)
                             + sum_list (arg_reimbursements a)\<rparr>"

definition sample_env :: "int env" where
  "sample_env =
     \<lparr>py_int = ascii_int, py_float = ascii_int, strptime_ymd = ascii_date,
      calculate_salary_components = sample_calc,
      next_pk = (\<lambda>ss. int (length ss) + 1),
      commit_ok = (\<lambda>k. True), today = (11, 2026)\<rparr>"

text \<open>The same environment with the second commit of a request failing.\<close>

definition failing_env :: "int env" where
  "failing_env = sample_env\<lparr>commit_ok := (\<lambda>k. k = 0)\<rparr>"

definition admin :: user where
  "admin = \<lparr>is_authenticated = True, is_admin = True, is_accounts = False, is_hr = False\<rparr>"

definition staff_form :: "string \<Rightarrow> form" where
  "staff_form base =
     [(''name'', ''Asha''), (''category'', ''Teaching''), (''department'', ''CSE''),
      (''designation'', ''Lecturer''), (''base_salary'', base), (''allowances'', ''2000''),
      (''deductions'', ''700''), (''date_joined'', ''2024-01-15''),
      (''bank_account'', ''0042''), (''aadhar'', ''1234''), (''active'', ''on'')]"

definition lop_form :: "string \<Rightarrow> form" where
  "lop_form days = [(''lop_month'', ''2025-02''), (''lop_1'', days)]"

definition d_r_form :: "string \<Rightarrow> form" where
  "d_r_form tax =
     [(''employee_name'', ''1''), (''salary_month'', ''2025-02''), (''income_tax'', tax),
      (''loan'', ''0''), (''advance'', ''0''), (''uniform'', ''0''), (''cd'', ''0''),
      (''hostel'', ''0''), (''misc'', ''0''), (''reimbursement_amount[]'', ''200'')]"

definition bare_form :: form where
  "bare_form = [(''employee_name'', ''1''), (''salary_month'', ''2025-02'')]"

definition asha :: "int \<Rightarrow> int staff" where
  "asha base =
     \<lparr>st_id = 1, st_staff_id = 1001, st_name = ''Asha'', st_category = ''Teaching'',
      st_department = ''CSE'', st_designation = ''Lecturer'',
      st_base_salary = base, st_allowances = Some 2000,
      st_deductions = Some 700, st_date_joined = (2024, 1, 15), st_bank_account = ''0042'',
      st_aadhar = ''1234'', st_pf_number = None, st_esi_number = None, st_active = True\<rparr>"

definition sample_db :: "int \<Rightarrow> int salary_record list \<Rightarrow> int db" where
  "sample_db base recs = \<lparr>staffs = [asha base], salary_records = recs\<rparr>"

text \<open>What \<open>d_r_form\<close> makes of a staff member with the given gross pay and days of loss
  of pay: the arguments of the helper, its result, and the record saved.\<close>

definition sample_args :: "int \<Rightarrow> int \<Rightarrow> int \<Rightarrow> int calc_args" where
  "sample_args gross lop tax =
     \<lparr>arg_gross_salary = gross, arg_lop_days = lop,
      arg_deductions = \<lparr>d_it = tax, d_loan = 0, d_advance = 0, d_uniform = 0, d_cd = 0,
                         d_hostel = 0, d_misc = 0\<rparr>,
      arg_reimbursements = [200], arg_month = 2, arg_year = 2025\<rparr>"

definition sample_result :: "int \<Rightarrow> int \<Rightarrow> int calc_result" where
  "sample_result gross tax =
     \<lparr>res_gross_salary = gross, res_lop_amount = 0, res_epf = 0, res_esi = 0,
      res_total_deductions = tax, res_total_reimbursements = 200,
      res_net_salary = gross - tax + 200\<rparr>"

definition sample_record :: "int \<Rightarrow> int \<Rightarrow> int \<Rightarrow> int salary_record" where
  "sample_record gross lop tax =
     \<lparr>staff_id = 1, month = 2, year = 2025, gross_salary = gross, lop_days = lop,
      lop_amount = Some 0, epf = Some 0, esi = Some 0, it = Some tax, loan = Some 0,
      advance = Some 0, uniform = Some 0, cd = Some 0, hostel = Some 0, misc = Some 0,
      total_deductions = Some tax, total_reimbursements = Some 200,
      net_salary = Some (gross - tax + 200)\<rparr>"

text \<open>Two records that agree in every column but \<^verbatim>\<open>lop_days\<close>.\<close>

definition same_but_lop_days :: "'n salary_record \<Rightarrow> 'n salary_record \<Rightarrow> bool" where
  "same_but_lop_days r r' = (r\<lparr>lop_days := lop_days r'\<rparr> = r')"

text \<open>The scenario and the slabs of section 8 of the specification, with rates and a
  rounding (half up, to two decimals) chosen for the run; the slabs are listed out of
  order.\<close>

definition round_half_up2 :: "rat \<Rightarrow> rat" where
  "round_half_up2 x = of_int \<lfloor>x * 100 + 1 / 2\<rfloor> / 100"

definition sample_params :: params where
  "sample_params =
     \<lparr>rate_epf = 12 / 100, rate_esi = 3 / 400, esi_ceiling = 21000, base_after_lop = False,
      round2 = round_half_up2\<rparr>"

definition scenario_deductions :: "rat deductions" where
  "scenario_deductions =
     \<lparr>d_it = 500, d_loan = 0, d_advance = 0, d_uniform = 0, d_cd = 0, d_hostel = 0, d_misc = 0\<rparr>"

definition spec_slabs :: "(enat, int) slab list" where
  "spec_slabs =
     [\<lparr>range_from = 20001, range_to = \<infinity>, tax_amount = 200\<rparr>,
      \<lparr>range_from = 0, range_to = 10000, tax_amount = 0\<rparr>,
      \<lparr>range_from = 10001, range_to = 20000, tax_amount = 150\<rparr>]"

section \<open>The handlers by the writes they commit\<close>

text \<open>What a handler asks of the session about salary records: \<^verbatim>\<open>db.session.delete(row)\<close>,
  \<^verbatim>\<open>db.session.add(row)\<close> of a record just constructed, and the assignment
  \<^verbatim>\<open>row.lop_days = v\<close> on a row a query returned. The first two replace a row, the third
  changes it in place.\<close>

datatype 'n row_write =
    Delete_row "'n salary_record"
  | Add_row "'n salary_record"
  | Assign_lop_days "'n salary_record" 'n

fun apply_write :: "'n row_write \<Rightarrow> 'n salary_record list \<Rightarrow> 'n salary_record list" where
  "apply_write (Delete_row r) recs = remove1 r recs"
| "apply_write (Add_row r) recs = recs @ [r]"
| "apply_write (Assign_lop_days r d) recs =
     update_first (\<lambda>x. x = r) (\<lambda>x. x\<lparr>lop_days := d\<rparr>) recs"

text \<open>Lines 285-312 as writes: \<^verbatim>\<open>delete(existing_record)\<close> and its commit, then
  \<^verbatim>\<open>add(record)\<close> and its commit; a write whose commit raises is rolled back.\<close>

definition d_r_writes ::
  "('n, 'x) env_scheme \<Rightarrow> 'n salary_record option \<Rightarrow> 'n salary_record \<Rightarrow> 'n row_write list" where
  "d_r_writes e existing_record record =
     (case existing_record of
        Some old \<Rightarrow>
          if commit_ok e 0
          then Delete_row old # (if commit_ok e 1 then [Add_row record] else [])
          else []
      | None \<Rightarrow> if commit_ok e 0 then [Add_row record] else [])"

text \<open>The writes of a \<^verbatim>\<open>d_r_page\<close> request that are committed: none unless the request
  is an authorised \<^verbatim>\<open>POST\<close> that gets as far as line 285.\<close>

definition d_r_page_writes ::
  "('n::{zero,plus}, 'x) env_scheme \<Rightarrow> user \<Rightarrow> meth \<Rightarrow> form \<Rightarrow> 'n db \<Rightarrow> 'n row_write list" where
  "d_r_page_writes e u mt f db =
     (if is_authenticated u \<and> (is_accounts u \<or> is_admin u) \<and> mt = POST then
        (case d_r_gather e f db of
           Ready staff existing_record a sid ms \<Rightarrow>
             (case calculate_salary_components e a of
                Inl err \<Rightarrow> []
              | Inr result \<Rightarrow> d_r_writes e existing_record (d_r_record staff a result))
         | other \<Rightarrow> [])
      else [])"

text \<open>Lines 164-180 as a write: the assignment of line 171 on the record found, or the
  \<^verbatim>\<open>add\<close> of line 180.\<close>

definition lop_write ::
  "'n::{zero,plus} staff \<Rightarrow> int \<Rightarrow> int \<Rightarrow> 'n \<Rightarrow> 'n salary_record list \<Rightarrow> 'n row_write" where
  "lop_write staff m y days recs =
     (case find (key_match (st_id staff) m y) recs of
        Some record \<Rightarrow> Assign_lop_days record days
      | None \<Rightarrow> Add_row (lop_record staff m y days))"

text \<open>The writes of the loop of lines 160-180, in the order they are made.\<close>

fun lop_loop_writes ::
  "('n::{zero,plus}, 'x) env_scheme \<Rightarrow> form \<Rightarrow> int \<Rightarrow> int \<Rightarrow> 'n staff list
     \<Rightarrow> 'n salary_record list \<Rightarrow> error + 'n row_write list" where
  "lop_loop_writes e f m y [] recs = Inr []"
| "lop_loop_writes e f m y (staff # rest) recs =
     (case form_get f (''lop_'' @ str_int (st_id staff)) of
        None \<Rightarrow> lop_loop_writes e f m y rest recs
      | Some lop_value \<Rightarrow>
          if lop_value \<noteq> [] \<and> \<not> blank lop_value then
            (case py_float e lop_value of
               None \<Rightarrow> Inl ValueError
             | Some days \<Rightarrow>
                 bind_err (lop_loop_writes e f m y rest (lop_store staff m y days recs))
                   (\<lambda>ws. Inr (lop_write staff m y days recs # ws)))
          else lop_loop_writes e f m y rest recs)"

text \<open>The writes of a \<^verbatim>\<open>lop_page\<close> request that are committed.\<close>

definition lop_page_writes ::
  "('n::{zero,plus}, 'x) env_scheme \<Rightarrow> user \<Rightarrow> meth \<Rightarrow> form \<Rightarrow> form \<Rightarrow> 'n db
     \<Rightarrow> 'n row_write list" where
  "lop_page_writes e u mt f q db =
     (if is_authenticated u \<and> (is_hr u \<or> is_admin u) \<and> mt = POST then
        (case lop_period e f q of
           Inl err \<Rightarrow> []
         | Inr (selected_month_str, y, m) \<Rightarrow>
             (case lop_loop_writes e f m y (sort_key st_name (filter st_active (staffs db)))
                     (salary_records db) of
                Inl err \<Rightarrow> []
              | Inr ws \<Rightarrow> if commit_ok e 0 then ws else []))
      else [])"

text \<open>A sequence of writes, made one after the other on the records given, that only
  assigns \<^verbatim>\<open>lop_days\<close> on the record its key has at that moment, or adds a record whose
  key has none at that moment and whose computed columns are empty; it deletes
  nothing.\<close>

fun lop_writes_ok :: "'n salary_record list \<Rightarrow> 'n row_write list \<Rightarrow> bool" where
  "lop_writes_ok recs [] = True"
| "lop_writes_ok recs (w # ws) =
     ((case w of
         Assign_lop_days r d \<Rightarrow>
           find (key_match (staff_id r) (month r) (year r)) recs = Some r
       | Add_row r \<Rightarrow>
           find (key_match (staff_id r) (month r) (year r)) recs = None
           \<and> net_salary r = None \<and> total_deductions r = None
       | Delete_row r \<Rightarrow> False)
      \<and> lop_writes_ok (apply_write w recs) ws)"

section \<open>The helper of the specification behind \<^verbatim>\<open>d_r_page\<close>\<close>

text \<open>Modelled from the spec: the helper that \<^verbatim>\<open>d_r_page\<close> calls
  (\<^verbatim>\<open>utils.calculate_salary_components\<close>, missing from the sources), as \<open>compute\<close> of
  section 4.1 with its result read by the keys of lines 294-308.\<close>

definition spec_helper :: "params \<Rightarrow> rat calc_args \<Rightarrow> error + rat calc_result" where
  "spec_helper p a =
     (case compute p (arg_gross_salary a) (arg_lop_days a) (arg_deductions a)
             (arg_reimbursements a) (arg_month a) (arg_year a) of
        Inl err \<Rightarrow> Inl err
      | Inr b \<Rightarrow>
          Inr \<lparr>res_gross_salary = b_gross_salary b, res_lop_amount = b_lop_amount b,
               res_epf = b_epf b, res_esi = b_esi b,
               res_total_deductions = b_total_deductions b,
               res_total_reimbursements = b_total_reimbursements b,
               res_net_salary = b_net_salary b\<rparr>)"

text \<open>An environment whose helper is that of the specification, and a staff member
  without allowances.\<close>

definition spec_env :: "params \<Rightarrow> rat env" where
  "spec_env p =
     \<lparr>py_int = ascii_int, py_float = (\<lambda>s. map_option of_int (ascii_int s)),
      strptime_ymd = ascii_date, calculate_salary_components = spec_helper p,
      next_pk = (\<lambda>ss. int (length ss) + 1), commit_ok = (\<lambda>k. True), today = (11, 2026)\<rparr>"

definition meena :: "rat staff" where
  "meena =
     \<lparr>st_id = 1, st_staff_id = 1001, st_name = ''Meena'', st_category = ''Teaching'',
      st_department = ''ECE'', st_designation = ''Lecturer'', st_base_salary = 30000,
      st_allowances = None, st_deductions = Some 900, st_date_joined = (2023, 6, 1),
      st_bank_account = ''0077'', st_aadhar = ''5678'', st_pf_number = None,
      st_esi_number = None, st_active = True\<rparr>"

text \<open>The call of the helper for that staff member with nothing but the selection in the
  form and no record in the store, and its result under the parameters of the run.\<close>

definition meena_args :: "rat calc_args" where
  "meena_args =
     \<lparr>arg_gross_salary = 30000, arg_lop_days = 0,
      arg_deductions = \<lparr>d_it = 0, d_loan = 0, d_advance = 0, d_uniform = 0, d_cd = 0,
                         d_hostel = 0, d_misc = 0\<rparr>,
      arg_reimbursements = [], arg_month = 2, arg_year = 2025\<rparr>"

definition meena_result :: "rat calc_result" where
  "meena_result =
     \<lparr>res_gross_salary = 30000, res_lop_amount = 0, res_epf = 3600, res_esi = 0,
      res_total_deductions = 3600, res_total_reimbursements = 0, res_net_salary = 26400\<rparr>"

section \<open>Facts about the model\<close>

lemma key_match_rec_key: "key_match sid m y r \<longleftrightarrow> rec_key r = (sid, m, y)"
  by (auto simp: key_match_def rec_key_def)

lemma d_r_gather_Ready:
  assumes "d_r_gather e f db = Ready st ex a sid ms"
  shows "form_get f ''salary_month'' = Some ms"
    and "parse_month e ms = Inr (arg_year a, arg_month a)"
    and "find (\<lambda>s. st_id s = sid) (staffs db) = Some st"
    and "ex = find (key_match (st_id st) (arg_month a) (arg_year a)) (salary_records db)"
    and "arg_lop_days a = (case ex of None \<Rightarrow> 0 | Some r \<Rightarrow> lop_days r)"
    and "arg_gross_salary a = st_base_salary st + or_zero (st_allowances st)"
    and "parse_deductions e f = Inr (arg_deductions a)"
    and "parse_reimbursements e f = Inr (arg_reimbursements a)"
  using assms
  by (auto simp: d_r_gather_def Let_def truthy_def split: if_splits option.splits sum.splits prod.splits)

lemma d_r_post_Saved:
  assumes "d_r_post e f db = (Saved st ms res sid, db')"
  shows "\<exists>ex a. d_r_gather e f db = Ready st ex a sid ms
           \<and> calculate_salary_components e a = Inr res
           \<and> d_r_save e ex (d_r_record st a res) db = (None, db')"
  using assms
  by (auto simp: d_r_post_def split: gathered.splits sum.splits prod.splits option.splits)

lemma d_r_save_None:
  assumes "d_r_save e ex r db = (None, db')"
  shows "salary_records db' =
           (case ex of None \<Rightarrow> salary_records db | Some old \<Rightarrow> remove1 old (salary_records db)) @ [r]"
    and "staffs db' = staffs db"
  using assms
  by (auto simp: d_r_save_def Let_def split: option.splits if_splits)

lemma d_r_page_saved:
  assumes "d_r_page e u mt f db = (([(Salary_saved n i ms, c)], pg), db')"
  shows "\<exists>st res sid. d_r_post e f db = (Saved st ms res sid, db')
           \<and> pg = Render_d_r (Some res) (Some sid) (Some ms)
           \<and> n = st_name st \<and> i = st_staff_id st"
  using assms
  by (auto simp: d_r_page_def split: if_splits prod.splits d_r_outcome.splits)

lemma find_first_key:
  "find (key_match sid m y) recs = Some old \<Longrightarrow> rec_key old = (sid, m, y) \<and> old \<in> set recs"
  by (auto simp: find_Some_iff key_match_rec_key)

lemma distinct_keys_remove1:
  "distinct (map rec_key recs) \<Longrightarrow> distinct (map rec_key (remove1 old recs))"
proof (induction recs)
  case Nil
  then show ?case by simp
next
  case (Cons r recs)
  have "set (remove1 old recs) \<subseteq> set recs" by (rule set_remove1_subset)
  with Cons show ?case by auto
qed

lemma key_gone_remove1:
  "distinct (map rec_key recs) \<Longrightarrow> old \<in> set recs \<Longrightarrow>
   rec_key old \<notin> rec_key ` set (remove1 old recs)"
proof (induction recs)
  case Nil
  then show ?case by simp
next
  case (Cons r recs)
  show ?case
  proof (cases "old = r")
    case True
    with Cons.prems show ?thesis by auto
  next
    case False
    from Cons.prems have "rec_key r \<notin> rec_key ` set recs" "distinct (map rec_key recs)"
      by simp_all
    moreover from Cons.prems False have "old \<in> set recs" by simp
    ultimately have "rec_key old \<noteq> rec_key r"
      and "rec_key old \<notin> rec_key ` set (remove1 old recs)"
      using Cons.IH by (metis imageI, blast)
    with False show ?thesis by auto
  qed
qed

lemma no_key_filter:
  "(sid, m, y) \<notin> rec_key ` set recs \<Longrightarrow> filter (key_match sid m y) recs = []"
  by (induction recs) (auto simp: key_match_rec_key)

lemma find_None_no_key:
  "find (key_match sid m y) recs = None \<Longrightarrow> (sid, m, y) \<notin> rec_key ` set recs"
  by (auto simp: find_None_iff key_match_rec_key)

lemma map_key_update_first:
  "map rec_key (update_first P (\<lambda>r. r\<lparr>lop_days := d\<rparr>) recs) = map rec_key recs"
  by (induction recs) (auto simp: rec_key_def)

lemma lop_store_keys:
  "distinct (map rec_key recs) \<Longrightarrow> distinct (map rec_key (lop_store st m y d recs))"
  by (auto simp: lop_store_def map_key_update_first lop_record_def rec_key_def
      dest!: find_None_no_key split: option.splits)

lemma lop_loop_keys:
  "distinct (map rec_key recs) \<Longrightarrow> lop_loop e f m y ss recs = Inr recs' \<Longrightarrow>
   distinct (map rec_key recs')"
proof (induction ss arbitrary: recs)
  case Nil
  then show ?case by simp
next
  case (Cons s ss)
  then show ?case
    by (auto split: option.splits if_splits intro: lop_store_keys)
qed

lemma lop_post_keys:
  "distinct (map rec_key (salary_records db)) \<Longrightarrow>
   distinct (map rec_key (salary_records (snd (lop_post e f m y db))))"
  by (auto simp: lop_post_def Let_def split: sum.splits dest: lop_loop_keys)

lemma lop_page_snd:
  "snd (lop_page e u mt f q db) = db \<or>
   (\<exists>m y. mt = POST \<and> snd (lop_page e u mt f q db) = snd (lop_post e f m y db))"
  by (auto simp: lop_page_def split: sum.splits prod.splits option.splits) (metis snd_conv)+

lemma lop_page_keys:
  "distinct (map rec_key (salary_records db)) \<Longrightarrow>
   distinct (map rec_key (salary_records (snd (lop_page e u mt f q db))))"
  using lop_page_snd[of e u mt f q db] lop_post_keys[of db e f] by auto

lemma d_r_save_keys:
  assumes "distinct (map rec_key (salary_records db))"
    and "ex = find (key_match (staff_id r) (month r) (year r)) (salary_records db)"
  shows "distinct (map rec_key (salary_records (snd (d_r_save e ex r db))))"
proof (cases ex)
  case None
  with assms(2) have "(staff_id r, month r, year r) \<notin> rec_key ` set (salary_records db)"
    by (simp add: find_None_no_key)
  with None assms(1) show ?thesis
    by (auto simp: d_r_save_def rec_key_def)
next
  case (Some old)
  with assms(2) have old: "rec_key old = rec_key r" "old \<in> set (salary_records db)"
    using find_first_key[of "staff_id r" "month r" "year r" "salary_records db" old]
    by (auto simp: rec_key_def)
  have "rec_key r \<notin> rec_key ` set (remove1 old (salary_records db))"
    using key_gone_remove1[OF assms(1) old(2)] old(1) by simp
  with Some assms(1) show ?thesis
    by (auto simp: d_r_save_def Let_def distinct_keys_remove1)
qed

lemma d_r_post_keys:
  assumes "distinct (map rec_key (salary_records db))"
  shows "distinct (map rec_key (salary_records (snd (d_r_post e f db))))"
proof (cases "d_r_gather e f db")
  case (Ready st ex a sid ms)
  show ?thesis
  proof (cases "calculate_salary_components e a")
    case (Inl err)
    with Ready assms show ?thesis by (simp add: d_r_post_def)
  next
    case (Inr res)
    have ex: "ex = find (key_match (staff_id (d_r_record st a res)) (month (d_r_record st a res))
                 (year (d_r_record st a res))) (salary_records db)"
      using d_r_gather_Ready(4)[OF Ready] by (simp add: d_r_record_def)
    from d_r_save_keys[OF assms ex, of e] Ready Inr show ?thesis
      by (auto simp: d_r_post_def split: prod.splits option.splits)
  qed
qed (use assms in \<open>simp_all add: d_r_post_def\<close>)

lemma d_r_page_snd:
  "snd (d_r_page e u mt f db) = db \<or> (mt = POST \<and> snd (d_r_page e u mt f db) = snd (d_r_post e f db))"
  by (auto simp: d_r_page_def split: prod.splits d_r_outcome.splits)

lemma d_r_page_keys:
  "distinct (map rec_key (salary_records db)) \<Longrightarrow>
   distinct (map rec_key (salary_records (snd (d_r_page e u mt f db))))"
  using d_r_post_keys[of db e f] d_r_page_snd[of e u mt f db] by auto

lemma new_staff_records:
  "salary_records (snd (new_staff e u mt f db)) = salary_records db"
  by (auto simp: new_staff_def split: sum.splits)

lemma reachable_keys: "reachable db \<Longrightarrow> distinct (map rec_key (salary_records db))"
proof (induction rule: reachable.induct)
  case start
  then show ?case by (simp add: empty_db_def)
next
  case (by_new_staff db e u mt f)
  then show ?case by (simp add: new_staff_records)
next
  case (by_lop_page db e u mt f q)
  then show ?case by (simp add: lop_page_keys)
next
  case (by_d_r_page db e u mt f)
  then show ?case by (simp add: d_r_page_keys)
qed

lemma d_r_post_one_record:
  assumes keys: "distinct (map rec_key (salary_records db))"
    and saved: "d_r_post e f db = (Saved st ms res sid, db')"
  shows "\<exists>ex a. d_r_gather e f db = Ready st ex a sid ms
           \<and> calculate_salary_components e a = Inr res
           \<and> filter (key_match (st_id st) (arg_month a) (arg_year a)) (salary_records db')
               = [d_r_record st a res]"
proof -
  from d_r_post_Saved[OF saved] obtain ex a where
    g: "d_r_gather e f db = Ready st ex a sid ms" and
    c: "calculate_salary_components e a = Inr res" and
    s: "d_r_save e ex (d_r_record st a res) db = (None, db')"
    by blast
  let ?k = "key_match (st_id st) (arg_month a) (arg_year a)"
  let ?kept = "case ex of None \<Rightarrow> salary_records db | Some old \<Rightarrow> remove1 old (salary_records db)"
  have ex: "ex = find ?k (salary_records db)"
    by (rule d_r_gather_Ready(4)[OF g])
  have recs: "salary_records db' = ?kept @ [d_r_record st a res]"
    by (rule d_r_save_None(1)[OF s])
  have "(st_id st, arg_month a, arg_year a) \<notin> rec_key ` set ?kept"
  proof (cases ex)
    case None
    with ex show ?thesis by (simp add: find_None_no_key)
  next
    case (Some old)
    with ex have "rec_key old = (st_id st, arg_month a, arg_year a)" "old \<in> set (salary_records db)"
      using find_first_key[of "st_id st" "arg_month a" "arg_year a" "salary_records db" old]
      by simp_all
    with key_gone_remove1[OF keys, of old] Some show ?thesis by simp
  qed
  then have "filter ?k ?kept = []" by (rule no_key_filter)
  moreover have "?k (d_r_record st a res)"
    by (simp add: key_match_def d_r_record_def)
  ultimately have "filter ?k (salary_records db') = [d_r_record st a res]"
    by (simp add: recs)
  with g c show ?thesis by blast
qed

lemma staffs_d_r_save: "staffs (snd (d_r_save e ex r db)) = staffs db"
  by (simp add: d_r_save_def Let_def split: option.splits)

lemma staffs_d_r_post: "staffs (snd (d_r_post e f db)) = staffs db"
  using staffs_d_r_save[of e _ _ db]
  by (auto simp: d_r_post_def split: gathered.splits sum.splits prod.splits option.splits)
    (metis snd_conv)+

lemma staffs_d_r_page: "staffs (snd (d_r_page e u mt f db)) = staffs db"
  using d_r_page_snd[of e u mt f db] staffs_d_r_post[of e f db] by auto

lemma staffs_lop_post: "staffs (snd (lop_post e f m y db)) = staffs db"
  by (simp add: lop_post_def Let_def split: sum.splits)

lemma staffs_lop_page: "staffs (snd (lop_page e u mt f q db)) = staffs db"
  using lop_page_snd[of e u mt f q db] staffs_lop_post[of e f _ _ db] by auto

lemma staff_of_form_id:
  "staff_of_form e f ss = Inr s \<Longrightarrow> st_staff_id s = next_staff_id ss"
  by (auto simp: staff_of_form_def bind_err_def split: sum.splits option.splits)

lemma new_staff_staffs:
  "staffs (snd (new_staff e u mt f db)) = staffs db \<or>
   (\<exists>s. staffs (snd (new_staff e u mt f db)) = staffs db @ [s]
        \<and> st_staff_id s = next_staff_id (staffs db))"
  by (auto simp: new_staff_def split: sum.splits dest: staff_of_form_id)

lemma new_staff_added:
  assumes "new_staff e u mt f db = (([(Staff_added nm sid, c)], pg), db')"
  shows "\<exists>s. staffs db' = staffs db @ [s] \<and> st_staff_id s = sid \<and> sid = next_staff_id (staffs db)"
  using assms
  by (auto simp: new_staff_def split: if_splits sum.splits dest: staff_of_form_id)

lemma next_staff_id_greater:
  "s \<in> set ss \<Longrightarrow> st_staff_id s < next_staff_id ss"
proof -
  assume "s \<in> set ss"
  then have "st_staff_id s \<le> Max (set (map st_staff_id ss))" by simp
  moreover from \<open>s \<in> set ss\<close> obtain x xs where "ss = x # xs" by (cases ss) auto
  ultimately show ?thesis by (simp add: next_staff_id_def)
qed

lemma ids_increasing_append:
  assumes "sorted_wrt (<) (map st_staff_id ss)" and "st_staff_id s = next_staff_id ss"
  shows "sorted_wrt (<) (map st_staff_id (ss @ [s]))"
  using assms by (auto simp: sorted_wrt_append next_staff_id_greater)

lemma reachable_staff_ids: "reachable db \<Longrightarrow> sorted_wrt (<) (map st_staff_id (staffs db))"
proof (induction rule: reachable.induct)
  case start
  then show ?case by (simp add: empty_db_def)
next
  case (by_new_staff db e u mt f)
  with new_staff_staffs[of e u mt f db] show ?case
    by (auto simp: ids_increasing_append simp del: map_append)
next
  case (by_lop_page db e u mt f q)
  then show ?case by (simp add: staffs_lop_page)
next
  case (by_d_r_page db e u mt f)
  then show ?case by (simp add: staffs_d_r_page)
qed

lemma subseq_remove1: "subseq (remove1 x xs) xs"
  by (induction xs) auto

lemma d_r_save_shape:
  "\<exists>kept new. salary_records (snd (d_r_save e ex r db)) = kept @ new
      \<and> subseq kept (salary_records db) \<and> (new = [] \<or> new = [r])"
proof (cases ex)
  case None
  show ?thesis
  proof (cases "commit_ok e 0")
    case True
    with None have "salary_records (snd (d_r_save e ex r db)) = salary_records db @ [r]"
      by (simp add: d_r_save_def)
    then show ?thesis by (metis subseq_order.order_refl)
  next
    case False
    with None have "salary_records (snd (d_r_save e ex r db)) = salary_records db @ []"
      by (simp add: d_r_save_def)
    then show ?thesis by (metis subseq_order.order_refl)
  qed
next
  case (Some old)
  consider "\<not> commit_ok e 0" | "commit_ok e 0" "\<not> commit_ok e 1" | "commit_ok e 0" "commit_ok e 1"
    by blast
  then show ?thesis
  proof cases
    case 1
    with Some have "salary_records (snd (d_r_save e ex r db)) = salary_records db @ []"
      by (simp add: d_r_save_def)
    then show ?thesis by (metis subseq_order.order_refl)
  next
    case 2
    with Some have "salary_records (snd (d_r_save e ex r db)) = remove1 old (salary_records db) @ []"
      by (simp add: d_r_save_def Let_def)
    then show ?thesis by (metis subseq_remove1)
  next
    case 3
    with Some have "salary_records (snd (d_r_save e ex r db)) = remove1 old (salary_records db) @ [r]"
      by (simp add: d_r_save_def Let_def)
    then show ?thesis by (metis subseq_remove1)
  qed
qed

lemma d_r_post_snd:
  "snd (d_r_post e f db) = db \<or>
   (\<exists>st ex a res. calculate_salary_components e a = Inr res
      \<and> snd (d_r_post e f db) = snd (d_r_save e ex (d_r_record st a res) db))"
  by (auto simp: d_r_post_def split: gathered.splits sum.splits prod.splits option.splits)
    (metis snd_conv)+

lemma d_r_page_shape:
  "\<exists>kept new. salary_records (snd (d_r_page e u mt f db)) = kept @ new
      \<and> subseq kept (salary_records db)
      \<and> (new = [] \<or> (\<exists>st a res. new = [d_r_record st a res]))"
proof -
  have unchanged: "\<exists>kept new. salary_records db = kept @ new
      \<and> subseq kept (salary_records db)
      \<and> (new = [] \<or> (\<exists>st a res. new = [d_r_record st a res]))"
    by (rule exI[of _ "salary_records db"], rule exI[of _ "[]"]) simp
  from d_r_page_snd[of e u mt f db] d_r_post_snd[of e f db]
  consider "snd (d_r_page e u mt f db) = db"
    | st ex a res where "snd (d_r_page e u mt f db) = snd (d_r_save e ex (d_r_record st a res) db)"
    by auto
  then show ?thesis
  proof cases
    case 1
    with unchanged show ?thesis by simp
  next
    case 2
    with d_r_save_shape[of e ex "d_r_record st a res" db] show ?thesis by metis
  qed
qed

lemma same_but_lop_days_iff: "same_but_lop_days r r' \<longleftrightarrow> (\<exists>d. r' = r\<lparr>lop_days := d\<rparr>)"
proof
  assume "same_but_lop_days r r'"
  then have "r' = r\<lparr>lop_days := lop_days r'\<rparr>"
    unfolding same_but_lop_days_def by (rule sym)
  then show "\<exists>d. r' = r\<lparr>lop_days := d\<rparr>" by (rule exI)
next
  assume "\<exists>d. r' = r\<lparr>lop_days := d\<rparr>"
  then obtain d where "r' = r\<lparr>lop_days := d\<rparr>" by (rule exE)
  then show "same_but_lop_days r r'"
    unfolding same_but_lop_days_def by simp
qed

lemma same_but_lop_days_refl: "same_but_lop_days r r"
  unfolding same_but_lop_days_def by simp

lemma same_but_lop_days_trans:
  assumes "same_but_lop_days r r'" and "same_but_lop_days r' r''"
  shows "same_but_lop_days r r''"
proof -
  from assms obtain d d' where "r' = r\<lparr>lop_days := d\<rparr>" "r'' = r'\<lparr>lop_days := d'\<rparr>"
    unfolding same_but_lop_days_iff by blast
  then have "r'' = r\<lparr>lop_days := d'\<rparr>" by simp
  then show ?thesis unfolding same_but_lop_days_iff by (rule exI)
qed

lemma update_first_lop_days:
  "list_all2 same_but_lop_days recs (update_first P (\<lambda>r. r\<lparr>lop_days := d\<rparr>) recs)"
proof (induction recs)
  case Nil
  then show ?case by simp
next
  case (Cons r recs)
  have "same_but_lop_days r (r\<lparr>lop_days := d\<rparr>)"
    unfolding same_but_lop_days_iff by (rule exI) (rule refl)
  moreover have "list_all2 same_but_lop_days recs recs"
    by (rule list_all2_refl) (rule same_but_lop_days_refl)
  ultimately show ?case using Cons.IH by (simp add: same_but_lop_days_refl)
qed

lemma lop_store_shape:
  "\<exists>upd fresh. lop_store st m y d recs = upd @ fresh \<and> list_all2 same_but_lop_days recs upd"
proof (cases "find (key_match (st_id st) m y) recs")
  case None
  then have "lop_store st m y d recs = recs @ [lop_record st m y d]"
    by (simp add: lop_store_def)
  moreover have "list_all2 same_but_lop_days recs recs"
    by (simp add: list_all2_refl same_but_lop_days_refl)
  ultimately show ?thesis by blast
next
  case (Some old)
  then have "lop_store st m y d recs
               = update_first (key_match (st_id st) m y) (\<lambda>r. r\<lparr>lop_days := d\<rparr>) recs @ []"
    by (simp add: lop_store_def)
  with update_first_lop_days[of recs "key_match (st_id st) m y" d] show ?thesis by blast
qed

lemma shape_compose:
  assumes "list_all2 same_but_lop_days recs upd"
    and "list_all2 same_but_lop_days (upd @ fresh) upd'"
  shows "\<exists>upd1 rest. upd' = upd1 @ rest \<and> list_all2 same_but_lop_days recs upd1"
proof -
  from assms(2) obtain upd1 rest where
    "upd' = upd1 @ rest" "list_all2 same_but_lop_days upd upd1"
    by (auto simp: list_all2_append1)
  moreover from assms(1) this(2) have "list_all2 same_but_lop_days recs upd1"
    by (rule list_all2_trans[rotated]) (rule same_but_lop_days_trans)
  ultimately show ?thesis by blast
qed

lemma lop_loop_shape:
  "lop_loop e f m y ss recs = Inr recs' \<Longrightarrow>
   \<exists>upd fresh. recs' = upd @ fresh \<and> list_all2 same_but_lop_days recs upd"
proof (induction ss arbitrary: recs)
  case Nil
  then have "recs' = recs @ []" by simp
  moreover have "list_all2 same_but_lop_days recs recs"
    by (simp add: list_all2_refl same_but_lop_days_refl)
  ultimately show ?case by blast
next
  case (Cons s ss)
  consider "lop_loop e f m y ss recs = Inr recs'"
    | d where "lop_loop e f m y ss (lop_store s m y d recs) = Inr recs'"
    using Cons.prems by (auto split: option.splits if_splits)
  then show ?case
  proof cases
    case 1
    then show ?thesis by (rule Cons.IH)
  next
    case 2
    from Cons.IH[OF 2] obtain upd' fresh' where
      r: "recs' = upd' @ fresh'" "list_all2 same_but_lop_days (lop_store s m y d recs) upd'"
      by blast
    from lop_store_shape[of s m y d recs] obtain upd fresh where
      s: "lop_store s m y d recs = upd @ fresh" "list_all2 same_but_lop_days recs upd"
      by blast
    from shape_compose[OF s(2), of fresh upd'] r(2) s(1) obtain upd1 rest where
      "upd' = upd1 @ rest" "list_all2 same_but_lop_days recs upd1"
      by auto
    with r(1) have "recs' = upd1 @ (rest @ fresh')" "list_all2 same_but_lop_days recs upd1"
      by simp_all
    then show ?thesis by blast
  qed
qed

lemma lop_post_shape:
  "\<exists>upd fresh. salary_records (snd (lop_post e f m y db)) = upd @ fresh
      \<and> list_all2 same_but_lop_days (salary_records db) upd"
proof -
  have unchanged: "salary_records db = salary_records db @ []
      \<and> list_all2 same_but_lop_days (salary_records db) (salary_records db)"
    by (simp add: list_all2_refl same_but_lop_days_refl)
  show ?thesis
  proof (cases "lop_loop e f m y (sort_key st_name (filter st_active (staffs db))) (salary_records db)")
    case (Inl err)
    then have "snd (lop_post e f m y db) = db" by (simp add: lop_post_def)
    with unchanged show ?thesis by metis
  next
    case (Inr recs)
    show ?thesis
    proof (cases "commit_ok e 0")
      case True
      with Inr have "salary_records (snd (lop_post e f m y db)) = recs" by (simp add: lop_post_def)
      with lop_loop_shape[OF Inr] show ?thesis by simp
    next
      case False
      with Inr have "snd (lop_post e f m y db) = db" by (simp add: lop_post_def)
      with unchanged show ?thesis by metis
    qed
  qed
qed

lemma lop_page_shape:
  "\<exists>upd fresh. salary_records (snd (lop_page e u mt f q db)) = upd @ fresh
      \<and> list_all2 same_but_lop_days (salary_records db) upd"
proof -
  have unchanged: "salary_records db = salary_records db @ []
      \<and> list_all2 same_but_lop_days (salary_records db) (salary_records db)"
    by (simp add: list_all2_refl same_but_lop_days_refl)
  from lop_page_snd[of e u mt f q db]
  consider "snd (lop_page e u mt f q db) = db"
    | m y where "snd (lop_page e u mt f q db) = snd (lop_post e f m y db)"
    by auto
  then show ?thesis
  proof cases
    case 1
    with unchanged show ?thesis by metis
  next
    case 2
    with lop_post_shape[of e f m y db] show ?thesis by simp
  qed
qed

lemma d_r_gather_ReadyI:
  assumes "form_get f ''employee_name'' = Some sid_str" and "sid_str \<noteq> []"
    and "form_get f ''salary_month'' = Some ms" and "ms \<noteq> []"
    and "parse_month e ms = Inr (y, m)"
    and "py_int e sid_str = Some sid"
    and "find (\<lambda>s. st_id s = sid) (staffs db) = Some st"
    and "parse_deductions e f = Inr ded"
    and "parse_reimbursements e f = Inr reimb"
  shows "d_r_gather e f db =
           Ready st (find (key_match (st_id st) m y) (salary_records db))
             \<lparr>arg_gross_salary = st_base_salary st + or_zero (st_allowances st),
              arg_lop_days = (case find (key_match (st_id st) m y) (salary_records db) of
                                None \<Rightarrow> 0 | Some r \<Rightarrow> lop_days r),
              arg_deductions = ded, arg_reimbursements = reimb,
              arg_month = m, arg_year = y\<rparr>
             sid ms"
  using assms by (simp add: d_r_gather_def truthy_def Let_def)

lemma lop_store_stored:
  "\<exists>r. find (key_match (st_id st) m y) (lop_store st m y d recs) = Some r \<and> lop_days r = d"
proof (cases "find (key_match (st_id st) m y) recs")
  case None
  then have "find (key_match (st_id st) m y) (recs @ [lop_record st m y d])
               = Some (lop_record st m y d)"
    by (induction recs) (auto simp: key_match_def lop_record_def split: if_splits)
  with None show ?thesis by (simp add: lop_store_def lop_record_def)
next
  case (Some old)
  then have "find (key_match (st_id st) m y)
               (update_first (key_match (st_id st) m y) (\<lambda>r. r\<lparr>lop_days := d\<rparr>) recs)
             = Some (old\<lparr>lop_days := d\<rparr>)"
    by (induction recs) (auto simp: key_match_def split: if_splits)
  with Some show ?thesis by (simp add: lop_store_def)
qed

lemma float_field_absent: "form_get f k = None \<Longrightarrow> float_field e f k = Inr 0"
  by (simp add: float_field_def)

lemma float_field_Inr:
  "float_field e f k = Inr v \<Longrightarrow> form_get f k = None \<Longrightarrow> v = 0"
  by (simp add: float_field_def)

lemma parse_deductions_Inr:
  assumes "parse_deductions e f = Inr ded"
  shows "float_field e f ''income_tax'' = Inr (d_it ded)"
    and "float_field e f ''loan'' = Inr (d_loan ded)"
    and "float_field e f ''advance'' = Inr (d_advance ded)"
    and "float_field e f ''uniform'' = Inr (d_uniform ded)"
    and "float_field e f ''cd'' = Inr (d_cd ded)"
    and "float_field e f ''hostel'' = Inr (d_hostel ded)"
    and "float_field e f ''misc'' = Inr (d_misc ded)"
  using assms
  by (auto simp: parse_deductions_def bind_err_def split: sum.splits)

lemma parse_reimbursements_empty:
  "form_getlist f ''reimbursement_amount[]'' = [] \<Longrightarrow> parse_reimbursements e f = Inr []"
  by (simp add: parse_reimbursements_def)























lemma scan_slabs_find:
  "scan_slabs covers amount slabs =
     (case find (\<lambda>s. covers s amount) slabs of None \<Rightarrow> 0 | Some s \<Rightarrow> tax_amount s)"
  by (induction slabs) auto

subsection \<open>The concrete requests, evaluated\<close>

lemma sample_ints:
  "ascii_int ''1'' = Some 1" "ascii_int ''2025'' = Some 2025" "ascii_int ''02'' = Some 2"
  "ascii_int ''0'' = Some 0" "ascii_int ''200'' = Some 200" "ascii_int ''500'' = Some 500"
  "ascii_int ''900'' = Some 900" "ascii_int ''2'' = Some 2" "ascii_int ''99'' = Some 99"
  "ascii_int ''-100'' = Some (- 100)" "ascii_int ''30000'' = Some 30000"
  "ascii_int ''2000'' = Some 2000" "ascii_int ''700'' = Some 700"
  "ascii_int ''2024'' = Some 2024" "ascii_int ''01'' = Some 1" "ascii_int ''15'' = Some 15"
  "ascii_int ''40000'' = Some 40000"
  by (simp_all add: ascii_int_def digit_val_def)

lemma sample_month:
  "py_int e = ascii_int \<Longrightarrow> parse_month e ''2025-02'' = Inr (2025, 2)"
  by (simp add: parse_month_def split_dash_def sample_ints)

lemma sample_date: "ascii_date ''2024-01-15'' = Some (2024, 1, 15)"
  by (simp add: ascii_date_def split_dash_def sample_ints)

lemma sample_new_staff:
  assumes "ascii_int base = Some b"
  shows "new_staff sample_env admin POST (staff_form base) empty_db =
     (([(Staff_added ''Asha'' 1001, ''success'')], Redirect ''routes.staff_details''),
      sample_db b [])"
proof -
  from assms have "base \<noteq> []" by (auto simp: ascii_int_def)
  with assms show ?thesis
    by (simp add: new_staff_def sample_env_def admin_def staff_form_def empty_db_def asha_def
        staff_of_form_def bind_err_def form_item_def form_get_def float_or_zero_def truthy_def
        sample_ints sample_date next_staff_id_def sample_db_def)
qed

lemma sample_gather:
  assumes "py_int e = ascii_int" and "py_float e = ascii_int" and "ascii_int tax = Some t"
  shows "d_r_gather e (d_r_form tax) (sample_db b recs) =
     Ready (asha b) (find (key_match 1 2 2025) recs)
       (sample_args (b + 2000)
          (case find (key_match 1 2 2025) recs of None \<Rightarrow> 0 | Some r \<Rightarrow> lop_days r) t)
       1 ''2025-02''"
  by (simp add: d_r_gather_def d_r_form_def sample_db_def form_get_def truthy_def Let_def
      sample_month asha_def or_zero_def parse_deductions_def float_field_def bind_err_def
      parse_reimbursements_def form_getlist_def blank_def is_space_def sample_args_def
      assms sample_ints)

lemma sample_calc_result:
  "sample_calc (sample_args g l t) = Inr (sample_result g t)"
  by (simp add: sample_calc_def sample_args_def sample_result_def sum_named_def)

lemma sample_d_r_record:
  "d_r_record (asha b) (sample_args g l t) (sample_result g t) = sample_record g l t"
  by (simp add: d_r_record_def asha_def sample_args_def sample_result_def sample_record_def)

lemma sample_first:
  assumes "ascii_int tax = Some t"
  shows "d_r_page sample_env admin POST (d_r_form tax) (sample_db b []) =
     (([(Salary_saved ''Asha'' 1001 ''2025-02'', ''success'')],
       Render_d_r (Some (sample_result (b + 2000) t)) (Some 1) (Some ''2025-02'')),
      sample_db b [sample_record (b + 2000) 0 t])"
proof -
  have "d_r_post sample_env (d_r_form tax) (sample_db b []) =
          (Saved (asha b) ''2025-02'' (sample_result (b + 2000) t) 1,
           sample_db b [sample_record (b + 2000) 0 t])"
    using sample_gather[of sample_env tax t b "[]"] assms
    by (simp add: d_r_post_def sample_env_def sample_calc_result sample_d_r_record
        d_r_save_def sample_db_def)
  then show ?thesis
    by (simp add: d_r_page_def admin_def asha_def)
qed

lemma sample_again:
  assumes "ascii_int tax = Some t" and "key_match 1 2 2025 old"
  shows "d_r_page sample_env admin POST (d_r_form tax) (sample_db b [old]) =
     (([(Salary_saved ''Asha'' 1001 ''2025-02'', ''success'')],
       Render_d_r (Some (sample_result (b + 2000) t)) (Some 1) (Some ''2025-02'')),
      sample_db b [sample_record (b + 2000) (lop_days old) t])"
proof -
  have "d_r_post sample_env (d_r_form tax) (sample_db b [old]) =
          (Saved (asha b) ''2025-02'' (sample_result (b + 2000) t) 1,
           sample_db b [sample_record (b + 2000) (lop_days old) t])"
    using sample_gather[of sample_env tax t b "[old]"] assms
    by (simp add: d_r_post_def sample_env_def sample_calc_result sample_d_r_record
        d_r_save_def sample_db_def)
  then show ?thesis
    by (simp add: d_r_page_def admin_def asha_def)
qed

lemma sample_record_key: "key_match 1 2 2025 (sample_record g l t)"
  by (simp add: key_match_def sample_record_def)

lemma sample_reachable: "reachable (sample_db 30000 [])"
  using reachable.by_new_staff[OF reachable.start, of sample_env admin POST "staff_form ''30000''"]
  by (simp add: sample_new_staff sample_ints)

lemma failing_env_builtins:
  "py_int failing_env = ascii_int" "py_float failing_env = ascii_int"
  "calculate_salary_components failing_env = sample_calc"
  "commit_ok failing_env k = (k = 0)"
  by (simp_all add: failing_env_def sample_env_def)

lemma sample_failed_insert:
  assumes "ascii_int tax = Some t" and "key_match 1 2 2025 old"
  shows "d_r_page failing_env admin POST (d_r_form tax) (sample_db b [old]) =
     (([(Error_saving SQLAlchemyError, ''error'')],
       Render_d_r (Some (sample_result (b + 2000) t)) (Some 1) (Some ''2025-02'')),
      sample_db b [])"
proof -
  have "d_r_post failing_env (d_r_form tax) (sample_db b [old]) =
          (Raised SQLAlchemyError (Some (sample_result (b + 2000) t)) (Some 1) (Some ''2025-02''),
           sample_db b [])"
    using sample_gather[of failing_env tax t b "[old]"] assms
    by (simp add: d_r_post_def failing_env_builtins sample_calc_result sample_d_r_record
        d_r_save_def sample_db_def)
  then show ?thesis
    by (simp add: d_r_page_def admin_def)
qed

lemma sample_second_staff:
  "new_staff sample_env admin POST (staff_form ''40000'') (sample_db 30000 []) =
     (([(Staff_added ''Asha'' 1002, ''success'')], Redirect ''routes.staff_details''),
      \<lparr>staffs = [asha 30000, (asha 40000)\<lparr>st_id := 2, st_staff_id := 1002\<rparr>],
       salary_records = []\<rparr>)"
  by (simp add: new_staff_def sample_env_def admin_def staff_form_def asha_def
      staff_of_form_def bind_err_def form_item_def form_get_def float_or_zero_def truthy_def
      sample_ints sample_date next_staff_id_def sample_db_def)

lemma sample_post_first:
  assumes "ascii_int tax = Some t"
  shows "d_r_post sample_env (d_r_form tax) (sample_db b []) =
          (Saved (asha b) ''2025-02'' (sample_result (b + 2000) t) 1,
           sample_db b [sample_record (b + 2000) 0 t])"
  using sample_gather[of sample_env tax t b "[]"] assms
  by (simp add: d_r_post_def sample_env_def sample_calc_result sample_d_r_record
      d_r_save_def sample_db_def)

lemma admin_roles: "is_authenticated admin" "is_admin admin"
  by (simp_all add: admin_def)

lemma sample_lop_key: "str_int 1 = ''1''"
  by (simp add: str_int_def str_nat.simps[of "Suc 0"] digit_char_def)

lemma sample_lop_page:
  assumes "ascii_int days = Some d" and "key_match 1 2 2025 old" and "days \<noteq> []" and "\<not> blank days"
  shows "lop_page sample_env admin POST (lop_form days) [] (sample_db b [old]) =
     (([(Lop_updated ''2025-02'', ''success'')], Render_lop ''2025-02'' 2025 2),
      sample_db b [old\<lparr>lop_days := d\<rparr>])"
proof -
  have period: "lop_period sample_env (lop_form days) [] = Inr (''2025-02'', 2025, 2)"
    using sample_month[of sample_env]
    by (simp add: lop_period_def lop_form_def form_get_def truthy_def sample_env_def)
  have loop: "lop_loop sample_env (lop_form days) 2 2025 [asha b] [old] = Inr [old\<lparr>lop_days := d\<rparr>]"
    using assms
    by (simp add: asha_def sample_lop_key lop_form_def form_get_def sample_env_def
        lop_store_def)
  have "lop_post sample_env (lop_form days) 2 2025 (sample_db b [old])
          = (None, sample_db b [old\<lparr>lop_days := d\<rparr>])"
    using loop
    by (simp add: lop_post_def sample_db_def) (simp add: asha_def sample_env_def)
  with period show ?thesis
    by (simp add: lop_page_def admin_def)
qed


lemma sample_env_builtins:
  "py_int sample_env = ascii_int" "py_float sample_env = ascii_int"
  "calculate_salary_components sample_env = sample_calc" "commit_ok sample_env k"
  by (simp_all add: sample_env_def)


lemma sample_form_fields:
  "form_get (d_r_form tax) ''employee_name'' = Some ''1''"
  "form_get (d_r_form tax) ''salary_month'' = Some ''2025-02''"
  "map (form_get (d_r_form tax)) [''income_tax'', ''loan'', ''advance'', ''uniform'', ''cd'', ''hostel'', ''misc'']
     = [Some tax, Some ''0'', Some ''0'', Some ''0'', Some ''0'', Some ''0'', Some ''0'']"
  "form_getlist (d_r_form tax) ''reimbursement_amount[]'' = [''200'']"
  by (simp_all add: d_r_form_def form_get_def form_getlist_def)



lemma lop_record_key: "key_match (st_id st) m y (lop_record st m y d)"
  by (simp add: key_match_def lop_record_def)


lemma bare_form_fields:
  "form_get bare_form ''employee_name'' = Some ''1''"
  "form_get bare_form ''salary_month'' = Some ''2025-02''"
  "form_get bare_form ''income_tax'' = None" "form_get bare_form ''loan'' = None"
  "form_get bare_form ''advance'' = None" "form_get bare_form ''uniform'' = None"
  "form_get bare_form ''cd'' = None" "form_get bare_form ''hostel'' = None"
  "form_get bare_form ''misc'' = None"
  "form_getlist bare_form ''reimbursement_amount[]'' = []"
  by (simp_all add: bare_form_def form_get_def form_getlist_def)

lemma bare_form_parsed:
  "parse_deductions e bare_form =
     Inr \<lparr>d_it = 0, d_loan = 0, d_advance = 0, d_uniform = 0, d_cd = 0, d_hostel = 0, d_misc = 0\<rparr>"
  "parse_reimbursements e bare_form = Inr []"
  by (simp_all add: parse_deductions_def float_field_def bind_err_def bare_form_fields
      parse_reimbursements_def)

lemma bare_gather:
  assumes "st_id st = 1"
  shows "d_r_gather sample_env bare_form \<lparr>staffs = [st], salary_records = []\<rparr> =
     Ready st None
       \<lparr>arg_gross_salary = st_base_salary st + or_zero (st_allowances st), arg_lop_days = 0,
        arg_deductions = \<lparr>d_it = 0, d_loan = 0, d_advance = 0, d_uniform = 0, d_cd = 0,
                           d_hostel = 0, d_misc = 0\<rparr>,
        arg_reimbursements = [], arg_month = 2, arg_year = 2025\<rparr>
       1 ''2025-02''"
proof -
  have "parse_month sample_env ''2025-02'' = Inr (2025, 2)"
    by (simp add: sample_month sample_env_builtins)
  moreover have "py_int sample_env ''1'' = Some 1"
    by (simp add: sample_env_builtins sample_ints)
  moreover have "find (\<lambda>s. st_id s = 1) (staffs \<lparr>staffs = [st], salary_records = []\<rparr>) = Some st"
    using assms by simp
  ultimately show ?thesis
    using d_r_gather_ReadyI[of bare_form "''1''" "''2025-02''" sample_env 2025 2 1
        "\<lparr>staffs = [st], salary_records = []\<rparr>" st _ "[]"]
    by (simp add: bare_form_fields bare_form_parsed)
qed

lemma sample_calc_echo:
  "\<forall>a r. calculate_salary_components sample_env a = Inr r
      \<longrightarrow> res_gross_salary r = arg_gross_salary a"
  by (auto simp: sample_env_def sample_calc_def)

lemma sample_all_gross_ok: "all_gross_ok (sample_db b [lop_record (asha b) m y d])"
  by (simp add: all_gross_ok_def gross_ok_def sample_db_def lop_record_def)

lemma april_2025: "days_in_month 2025 4 = Inr 30"
  by (simp add: days_in_month_def mdays_def)

lemma scenario_lop_amount: "round_half_up2 (30000 / of_nat 30 * 2) = 2000"
  by (simp add: round_half_up2_def floor_eq_iff)

lemma spec_slabs_sorted:
  "sort_key range_from spec_slabs =
     [\<lparr>range_from = 0, range_to = 10000, tax_amount = 0\<rparr>,
      \<lparr>range_from = 10001, range_to = 20000, tax_amount = 150\<rparr>,
      \<lparr>range_from = 20001, range_to = \<infinity>, tax_amount = 200\<rparr>]"
  by (simp add: spec_slabs_def numeral_eq_enat zero_enat_def)

lemma spec_slabs_values:
  "find_slab covers_closed 10000 spec_slabs = 0"
  "find_slab covers_closed 10001 spec_slabs = 150"
  "find_slab covers_closed 25000 spec_slabs = 200"
  by (simp_all add: find_slab_def spec_slabs_sorted covers_closed_def numeral_eq_enat zero_enat_def)

subsection \<open>The handlers by their writes\<close>

lemma update_first_found:
  assumes "find P recs = Some r"
  shows "update_first P g recs = update_first (\<lambda>x. x = r) g recs"
proof -
  from assms have "P r" by (auto simp: find_Some_iff)
  with assms show ?thesis
    by (induction recs) (auto split: if_splits)
qed

lemma lop_store_write: "lop_store st m y d recs = apply_write (lop_write st m y d recs) recs"
  by (simp add: lop_store_def lop_write_def update_first_found split: option.split)

lemma lop_loop_by_writes:
  "lop_loop e f m y ss recs =
     (case lop_loop_writes e f m y ss recs of
        Inl err \<Rightarrow> Inl err
      | Inr ws \<Rightarrow> Inr (fold apply_write ws recs))"
proof (induction ss arbitrary: recs)
  case Nil
  then show ?case by simp
next
  case (Cons s ss)
  show ?case
    by (simp add: Cons.IH bind_err_def lop_store_write split: option.split sum.split)
qed

lemma lop_write_ok:
  "(case lop_write st m y d recs of
      Assign_lop_days r v \<Rightarrow> find (key_match (staff_id r) (month r) (year r)) recs = Some r
    | Add_row r \<Rightarrow> find (key_match (staff_id r) (month r) (year r)) recs = None
                    \<and> net_salary r = None \<and> total_deductions r = None
    | Delete_row r \<Rightarrow> False)"
proof (cases "find (key_match (st_id st) m y) recs")
  case None
  then show ?thesis by (simp add: lop_write_def lop_record_def)
next
  case (Some r)
  then have "key_match (st_id st) m y r" by (auto simp: find_Some_iff)
  with Some show ?thesis by (simp add: lop_write_def key_match_def)
qed

lemma lop_loop_writes_ok:
  "lop_loop_writes e f m y ss recs = Inr ws \<Longrightarrow> lop_writes_ok recs ws"
proof (induction ss arbitrary: recs ws)
  case Nil
  then show ?case by simp
next
  case (Cons s ss)
  consider "lop_loop_writes e f m y ss recs = Inr ws"
    | d ws' where "lop_loop_writes e f m y ss (lop_store s m y d recs) = Inr ws'"
        "ws = lop_write s m y d recs # ws'"
    using Cons.prems by (auto simp: bind_err_def split: option.splits if_splits sum.splits)
  then show ?case
  proof cases
    case 1
    then show ?thesis by (rule Cons.IH)
  next
    case 2
    from Cons.IH[OF 2(1)] have "lop_writes_ok (apply_write (lop_write s m y d recs) recs) ws'"
      by (simp add: lop_store_write)
    with lop_write_ok[where st = s and m = m and y = y and d = d and recs = recs] 2(2)
    show ?thesis by simp
  qed
qed

lemma lop_page_by_writes:
  "salary_records (snd (lop_page e u mt f q db))
     = fold apply_write (lop_page_writes e u mt f q db) (salary_records db)"
proof (cases "is_authenticated u \<and> (is_hr u \<or> is_admin u) \<and> mt = POST")
  case False
  then show ?thesis
    by (auto simp: lop_page_def lop_page_writes_def split: sum.splits prod.splits)
next
  case True
  show ?thesis
  proof (cases "lop_period e f q")
    case (Inl err)
    with True show ?thesis by (auto simp: lop_page_def lop_page_writes_def)
  next
    case (Inr per)
    obtain s y m where per: "per = (s, y, m)" by (cases per)
    let ?ss = "sort_key st_name (filter st_active (staffs db))"
    have post: "salary_records (snd (lop_post e f m y db))
          = fold apply_write
              (case lop_loop_writes e f m y ?ss (salary_records db) of
                 Inl err \<Rightarrow> [] | Inr ws \<Rightarrow> if commit_ok e 0 then ws else [])
              (salary_records db)"
      by (simp add: lop_post_def lop_loop_by_writes split: sum.split)
    have "snd (lop_page e u mt f q db) = snd (lop_post e f m y db)"
      using True Inr per by (auto simp: lop_page_def split: prod.splits option.splits)
    moreover have "lop_page_writes e u mt f q db
          = (case lop_loop_writes e f m y ?ss (salary_records db) of
                 Inl err \<Rightarrow> [] | Inr ws \<Rightarrow> if commit_ok e 0 then ws else [])"
      using True Inr per by (simp add: lop_page_writes_def)
    ultimately show ?thesis using post by simp
  qed
qed

lemma lop_page_writes_ok: "lop_writes_ok (salary_records db) (lop_page_writes e u mt f q db)"
  by (auto simp: lop_page_writes_def split: sum.splits prod.splits dest: lop_loop_writes_ok)

lemma d_r_save_by_writes:
  "salary_records (snd (d_r_save e ex r db)) = fold apply_write (d_r_writes e ex r) (salary_records db)"
  by (simp add: d_r_save_def d_r_writes_def Let_def split: option.split)

lemma d_r_page_by_writes:
  "salary_records (snd (d_r_page e u mt f db))
     = fold apply_write (d_r_page_writes e u mt f db) (salary_records db)"
proof (cases "is_authenticated u \<and> (is_accounts u \<or> is_admin u) \<and> mt = POST")
  case False
  then show ?thesis by (auto simp: d_r_page_def d_r_page_writes_def)
next
  case True
  then have page: "snd (d_r_page e u mt f db) = snd (d_r_post e f db)"
    by (auto simp: d_r_page_def split: prod.splits d_r_outcome.splits)
  show ?thesis
  proof (cases "d_r_gather e f db")
    case (Ready st ex a sid ms)
    show ?thesis
    proof (cases "calculate_salary_components e a")
      case (Inl err)
      with True Ready page show ?thesis by (simp add: d_r_post_def d_r_page_writes_def)
    next
      case (Inr res)
      with Ready have "snd (d_r_post e f db) = snd (d_r_save e ex (d_r_record st a res) db)"
        by (simp add: d_r_post_def split: prod.splits option.splits)
      with True Ready Inr page show ?thesis
        by (simp add: d_r_page_writes_def d_r_save_by_writes)
    qed
  qed (use True page in \<open>simp_all add: d_r_post_def d_r_page_writes_def\<close>)
qed

lemma d_r_page_writes_cases:
  "d_r_page_writes e u mt f db = []
   \<or> (\<exists>st a res.
         d_r_page_writes e u mt f db = [Add_row (d_r_record st a res)]
         \<and> find (key_match (st_id st) (arg_month a) (arg_year a)) (salary_records db) = None)
   \<or> (\<exists>old st a res.
         find (key_match (st_id st) (arg_month a) (arg_year a)) (salary_records db) = Some old
         \<and> (d_r_page_writes e u mt f db = [Delete_row old]
            \<or> d_r_page_writes e u mt f db = [Delete_row old, Add_row (d_r_record st a res)]))"
proof (cases "d_r_gather e f db")
  case (Ready st ex a sid ms)
  note ex = d_r_gather_Ready(4)[OF Ready]
  show ?thesis
  proof (cases "calculate_salary_components e a")
    case (Inl err)
    with Ready show ?thesis by (simp add: d_r_page_writes_def)
  next
    case (Inr res)
    show ?thesis
    proof (cases "is_authenticated u \<and> (is_accounts u \<or> is_admin u) \<and> mt = POST")
      case False
      then show ?thesis by (auto simp: d_r_page_writes_def)
    next
      case True
      with Ready Inr have w: "d_r_page_writes e u mt f db = d_r_writes e ex (d_r_record st a res)"
        by (simp add: d_r_page_writes_def)
      show ?thesis
      proof (cases ex)
        case None
        with ex have "find (key_match (st_id st) (arg_month a) (arg_year a)) (salary_records db)
                        = None" by simp
        moreover from None w have "d_r_page_writes e u mt f db = []
            \<or> d_r_page_writes e u mt f db = [Add_row (d_r_record st a res)]"
          by (auto simp: d_r_writes_def)
        ultimately show ?thesis by blast
      next
        case (Some old)
        with ex have "find (key_match (st_id st) (arg_month a) (arg_year a)) (salary_records db)
                        = Some old" by simp
        moreover from Some w have "d_r_page_writes e u mt f db = []
            \<or> d_r_page_writes e u mt f db = [Delete_row old]
            \<or> d_r_page_writes e u mt f db = [Delete_row old, Add_row (d_r_record st a res)]"
          by (auto simp: d_r_writes_def)
        ultimately show ?thesis by blast
      qed
    qed
  qed
qed (simp_all add: d_r_page_writes_def)

subsection \<open>What \<^verbatim>\<open>lop_page\<close> stores for a staff member\<close>

lemma find_update_first_other:
  assumes "\<And>x. Q x \<Longrightarrow> \<not> P x" and "\<And>x. P (g x) = P x"
  shows "find P (update_first Q g recs) = find P recs"
  using assms by (induction recs) auto

lemma lop_store_other:
  assumes "st_id s \<noteq> sid"
  shows "find (key_match sid m y) (lop_store s m y d recs) = find (key_match sid m y) recs"
proof (cases "find (key_match (st_id s) m y) recs")
  case None
  have "\<not> key_match sid m y (lop_record s m y d)"
    using assms by (simp add: key_match_def lop_record_def)
  then have "find (key_match sid m y) (recs @ [lop_record s m y d]) = find (key_match sid m y) recs"
    by (induction recs) auto
  with None show ?thesis by (simp add: lop_store_def)
next
  case (Some old)
  have "find (key_match sid m y)
          (update_first (key_match (st_id s) m y) (\<lambda>r. r\<lparr>lop_days := d\<rparr>) recs)
        = find (key_match sid m y) recs"
    using assms by (intro find_update_first_other) (auto simp: key_match_def)
  with Some show ?thesis by (simp add: lop_store_def)
qed

lemma lop_store_same:
  "find (key_match (st_id st) m y) (lop_store st m y d recs) =
     Some (case find (key_match (st_id st) m y) recs of
             Some old \<Rightarrow> old\<lparr>lop_days := d\<rparr>
           | None \<Rightarrow> lop_record st m y d)"
proof (cases "find (key_match (st_id st) m y) recs")
  case None
  then have "find (key_match (st_id st) m y) (recs @ [lop_record st m y d])
               = Some (lop_record st m y d)"
    by (induction recs) (auto simp: key_match_def lop_record_def split: if_splits)
  with None show ?thesis by (simp add: lop_store_def)
next
  case (Some old)
  then have "find (key_match (st_id st) m y)
               (update_first (key_match (st_id st) m y) (\<lambda>r. r\<lparr>lop_days := d\<rparr>) recs)
             = Some (old\<lparr>lop_days := d\<rparr>)"
    by (induction recs) (auto simp: key_match_def split: if_splits)
  with Some show ?thesis by (simp add: lop_store_def)
qed

lemma lop_loop_other:
  "st_id st \<notin> st_id ` set ss \<Longrightarrow> lop_loop e f m y ss recs = Inr recs' \<Longrightarrow>
   find (key_match (st_id st) m y) recs' = find (key_match (st_id st) m y) recs"
proof (induction ss arbitrary: recs)
  case Nil
  then show ?case by simp
next
  case (Cons s ss)
  from Cons.prems(1) have s: "st_id s \<noteq> st_id st" and rest: "st_id st \<notin> st_id ` set ss"
    by auto
  consider "lop_loop e f m y ss recs = Inr recs'"
    | d where "lop_loop e f m y ss (lop_store s m y d recs) = Inr recs'"
    using Cons.prems(2) by (auto split: option.splits if_splits)
  then show ?case
  proof cases
    case 1
    with Cons.IH[OF rest] show ?thesis by simp
  next
    case 2
    with Cons.IH[OF rest] lop_store_other[OF s] show ?thesis by simp
  qed
qed

lemma lop_loop_stores:
  assumes "distinct (map st_id ss)" and "st \<in> set ss"
    and "form_get f (''lop_'' @ str_int (st_id st)) = Some v" and "v \<noteq> []" and "\<not> blank v"
    and "lop_loop e f m y ss recs = Inr recs'"
  shows "\<exists>d. py_float e v = Some d
           \<and> find (key_match (st_id st) m y) recs' =
               Some (case find (key_match (st_id st) m y) recs of
                       Some old \<Rightarrow> old\<lparr>lop_days := d\<rparr>
                     | None \<Rightarrow> lop_record st m y d)"
  using assms(1,2,6)
proof (induction ss arbitrary: recs)
  case Nil
  then show ?case by simp
next
  case (Cons s ss)
  from Cons.prems(1) have dist: "distinct (map st_id ss)" and fresh: "st_id s \<notin> st_id ` set ss"
    by simp_all
  show ?case
  proof (cases "s = st")
    case True
    with Cons.prems(3) assms(3-5) obtain d where
      d: "py_float e v = Some d" and
      rest: "lop_loop e f m y ss (lop_store st m y d recs) = Inr recs'"
      by (auto split: option.splits)
    from fresh True have "st_id st \<notin> st_id ` set ss" by simp
    from lop_loop_other[OF this rest] lop_store_same[of st m y d recs] d
    show ?thesis by simp
  next
    case False
    with Cons.prems(2) have st: "st \<in> set ss" by simp
    with fresh have other: "st_id s \<noteq> st_id st" by auto
    consider "lop_loop e f m y ss recs = Inr recs'"
      | d where "lop_loop e f m y ss (lop_store s m y d recs) = Inr recs'"
      using Cons.prems(3) by (auto split: option.splits if_splits)
    then show ?thesis
    proof cases
      case 1
      from Cons.IH[OF dist st 1] show ?thesis .
    next
      case 2
      from Cons.IH[OF dist st 2] lop_store_other[OF other, of m y d recs]
      show ?thesis by simp
    qed
  qed
qed

lemma staff_list_ids:
  assumes "distinct (map st_id ss)"
  shows "distinct (map st_id (sort_key st_name (filter st_active ss)))"
proof -
  have "mset (map st_id (sort_key st_name (filter st_active ss)))
          = mset (map st_id (filter st_active ss))"
    by simp
  moreover from assms have "distinct (map st_id (filter st_active ss))"
    by (rule distinct_map_filter)
  ultimately show ?thesis
    by (metis mset_eq_imp_distinct_iff)
qed

lemma lop_page_updated:
  assumes "lop_page e u mt f q db = (([(Lop_updated s, c)], pg), db')"
  shows "\<exists>y m recs'. lop_period e f q = Inr (s, y, m) \<and> pg = Render_lop s y m
           \<and> lop_loop e f m y (sort_key st_name (filter st_active (staffs db))) (salary_records db)
               = Inr recs'
           \<and> db' = db\<lparr>salary_records := recs'\<rparr>"
  using assms
  by (auto simp: lop_page_def lop_post_def Let_def
      split: if_splits sum.splits prod.splits option.splits)

lemma lop_page_stores:
  assumes "distinct (map st_id (staffs db))"
    and "lop_page e u mt f q db = (([(Lop_updated s, c)], Render_lop s y m), db')"
    and "st \<in> set (staffs db)" and "st_active st"
    and "form_get f (''lop_'' @ str_int (st_id st)) = Some v" and "v \<noteq> []" and "\<not> blank v"
  shows "\<exists>d. py_float e v = Some d
           \<and> find (key_match (st_id st) m y) (salary_records db') =
               Some (case find (key_match (st_id st) m y) (salary_records db) of
                       Some old \<Rightarrow> old\<lparr>lop_days := d\<rparr>
                     | None \<Rightarrow> lop_record st m y d)"
proof -
  let ?ss = "sort_key st_name (filter st_active (staffs db))"
  from lop_page_updated[OF assms(2)] obtain recs' where
    loop: "lop_loop e f m y ?ss (salary_records db) = Inr recs'" and
    db': "db' = db\<lparr>salary_records := recs'\<rparr>"
    by auto
  from assms(3,4) have "st \<in> set ?ss" by simp
  from lop_loop_stores[OF staff_list_ids[OF assms(1)] this assms(5-7) loop] db'
  show ?thesis by simp
qed


subsection \<open>What \<^verbatim>\<open>d_r_page\<close> saves\<close>

lemma d_r_page_saved_record:
  assumes "d_r_page e u mt f db = (([(Salary_saved n i ms, c)], pg), db')"
  shows "\<exists>st ex a res sid. d_r_gather e f db = Ready st ex a sid ms
           \<and> calculate_salary_components e a = Inr res
           \<and> pg = Render_d_r (Some res) (Some sid) (Some ms)
           \<and> salary_records db' =
               (case ex of None \<Rightarrow> salary_records db
                | Some old \<Rightarrow> remove1 old (salary_records db)) @ [d_r_record st a res]"
proof -
  from d_r_page_saved[OF assms] obtain st res sid
    where p: "d_r_post e f db = (Saved st ms res sid, db')"
      and pg: "pg = Render_d_r (Some res) (Some sid) (Some ms)" by blast
  from d_r_post_Saved[OF p] obtain ex a
    where g: "d_r_gather e f db = Ready st ex a sid ms"
      and c: "calculate_salary_components e a = Inr res"
      and s: "d_r_save e ex (d_r_record st a res) db = (None, db')" by blast
  from d_r_save_None(1)[OF s] g c pg show ?thesis by blast
qed


subsection \<open>The helper of the specification\<close>


lemma spec_helper_no_reimbursements:
  "spec_helper p a = Inr res \<Longrightarrow> arg_reimbursements a = []
     \<Longrightarrow> res_total_reimbursements res = 0"
  by (auto simp: spec_helper_def compute_def Let_def split: sum.splits if_splits)

lemma compute_no_reimbursements:
  "compute p g l d [] m y = Inr b \<Longrightarrow> b_total_reimbursements b = 0"
  by (auto simp: compute_def Let_def split: sum.splits if_splits)

subsection \<open>More requests, evaluated\<close>

lemma sample_staff_ids: "distinct (map st_id (staffs (sample_db b recs)))"
  "asha b \<in> set (staffs (sample_db b recs))" "st_active (asha b)" "st_id (asha b) = 1"
  by (simp_all add: sample_db_def asha_def)

lemma sample_lop_field:
  "form_get (lop_form days) (''lop_'' @ str_int (st_id (asha b))) = Some days"
  by (simp add: sample_staff_ids sample_lop_key lop_form_def form_get_def)

lemma sample_lop_page_writes:
  assumes "ascii_int days = Some d" and "days \<noteq> []" and "\<not> blank days"
  shows "lop_page_writes sample_env admin POST (lop_form days) [] (sample_db b recs)
           = [lop_write (asha b) 2 2025 d recs]"
proof -
  have period: "lop_period sample_env (lop_form days) [] = Inr (''2025-02'', 2025, 2)"
    using sample_month[of sample_env]
    by (simp add: lop_period_def lop_form_def form_get_def truthy_def sample_env_def)
  have "form_get (lop_form days) (''lop_'' @ str_int (st_id (asha b))) = Some days"
    by (rule sample_lop_field)
  with assms have loop: "lop_loop_writes sample_env (lop_form days) 2 2025 [asha b] recs
                    = Inr [lop_write (asha b) 2 2025 d recs]"
    by (simp add: sample_env_builtins bind_err_def)
  have "sort_key st_name (filter st_active (staffs (sample_db b recs))) = [asha b]"
    by (simp add: sample_db_def asha_def)
  with loop period show ?thesis
    by (simp add: lop_page_writes_def admin_def sample_env_builtins sample_db_def)
qed

lemma sample_d_r_page_writes:
  assumes "ascii_int tax = Some t"
  shows "d_r_page_writes sample_env admin POST (d_r_form tax) (sample_db b recs)
           = d_r_writes sample_env (find (key_match 1 2 2025) recs)
               (sample_record (b + 2000)
                  (case find (key_match 1 2 2025) recs of None \<Rightarrow> 0 | Some r \<Rightarrow> lop_days r) t)"
  using sample_gather[of sample_env tax t b recs] assms
  by (simp add: d_r_page_writes_def admin_def sample_env_builtins sample_calc_result
      sample_d_r_record)

lemma spec_env_builtins:
  "py_int (spec_env p) = ascii_int"
  "py_float (spec_env p) = (\<lambda>s. map_option of_int (ascii_int s))"
  "calculate_salary_components (spec_env p) = spec_helper p" "commit_ok (spec_env p) k"
  by (simp_all add: spec_env_def)

lemma february_2025: "days_in_month 2025 2 = Inr 28"
  by (simp add: days_in_month_def isleap_def mdays_def)

lemma meena_helper: "spec_helper sample_params meena_args = Inr meena_result"
proof -
  have "round_half_up2 0 = 0" by (simp add: round_half_up2_def floor_eq_iff)
  then show ?thesis
    by (simp add: spec_helper_def compute_def meena_args_def february_2025 sample_params_def
        Let_def sum_named_def meena_result_def)
qed

lemma meena_gather:
  "d_r_gather (spec_env p) bare_form \<lparr>staffs = [meena], salary_records = []\<rparr> =
     Ready meena None meena_args 1 ''2025-02''"
proof -
  have "parse_month (spec_env p) ''2025-02'' = Inr (2025, 2)"
    by (simp add: sample_month spec_env_builtins)
  moreover have "py_int (spec_env p) ''1'' = Some 1"
    by (simp add: spec_env_builtins sample_ints)
  moreover have "find (\<lambda>s. st_id s = 1) (staffs \<lparr>staffs = [meena], salary_records = []\<rparr>) = Some meena"
    by (simp add: meena_def)
  ultimately show ?thesis
    using d_r_gather_ReadyI[of bare_form "''1''" "''2025-02''" "spec_env p" 2025 2 1
        "\<lparr>staffs = [meena], salary_records = []\<rparr>" meena _ "[]"]
    by (simp add: bare_form_fields bare_form_parsed meena_args_def) (simp add: meena_def or_zero_def)
qed

lemma meena_page:
  "d_r_page (spec_env sample_params) admin POST bare_form
       \<lparr>staffs = [meena], salary_records = []\<rparr> =
     (([(Salary_saved ''Meena'' 1001 ''2025-02'', ''success'')],
       Render_d_r (Some meena_result) (Some 1) (Some ''2025-02'')),
      \<lparr>staffs = [meena], salary_records = [d_r_record meena meena_args meena_result]\<rparr>)"
proof -
  have "d_r_post (spec_env sample_params) bare_form \<lparr>staffs = [meena], salary_records = []\<rparr> =
          (Saved meena ''2025-02'' meena_result 1,
           \<lparr>staffs = [meena], salary_records = [d_r_record meena meena_args meena_result]\<rparr>)"
    by (simp add: d_r_post_def meena_gather spec_env_builtins meena_helper d_r_save_def)
  then show ?thesis
    by (simp add: d_r_page_def admin_def) (simp add: meena_def)
qed

lemma meena_compute:
  "compute sample_params 30000 0
       \<lparr>d_it = 0, d_loan = 0, d_advance = 0, d_uniform = 0, d_cd = 0, d_hostel = 0, d_misc = 0\<rparr>
       [] 2 2025 =
     Inr \<lparr>b_gross_salary = 30000, b_lop_amount = 0, b_epf = 3600, b_esi = 0,
          b_deductions = \<lparr>d_it = 0, d_loan = 0, d_advance = 0, d_uniform = 0, d_cd = 0,
                           d_hostel = 0, d_misc = 0\<rparr>,
          b_total_deductions = 3600, b_total_reimbursements = 0, b_net_salary = 26400\<rparr>"
proof -
  have "round_half_up2 0 = 0" by (simp add: round_half_up2_def floor_eq_iff)
  then show ?thesis
    by (simp add: compute_def february_2025 sample_params_def Let_def sum_named_def)
qed

section \<open>The claims\<close>

text \<open>
  C1. Computing and persisting a breakdown twice through \<^verbatim>\<open>d_r_page\<close> for the same staff
  member and month leaves exactly one record for that key, and it is the record built
  from the most recent computation. The store the first request starts from is any store
  the handlers can produce, both requests are answered with the success flash, and they
  name the same staff member \<open>sid\<close> and month \<open>ms\<close>. The conclusion names the arguments
  \<open>a\<close> the second request called the helper with and its result \<open>res2\<close>: the records of
  the key are the one fresh record \<open>d_r_record st a res2\<close>.
\<close>

theorem d_r_page_upsert:
  assumes "reachable db0"
    and "d_r_page (e :: ('n::{zero,plus}) env) u1 POST f1 db0 =
           (([(Salary_saved n1 i1 ms, ''success'')], Render_d_r (Some res1) (Some sid) (Some ms)), db1)"
    and "d_r_page e u2 POST f2 db1 =
           (([(Salary_saved n2 i2 ms, ''success'')], Render_d_r (Some res2) (Some sid) (Some ms)), db2)"
  shows "\<exists>st ex a. d_r_gather e f2 db1 = Ready st ex a sid ms
           \<and> st_id st = sid \<and> parse_month e ms = Inr (arg_year a, arg_month a)
           \<and> calculate_salary_components e a = Inr res2
           \<and> filter (key_match sid (arg_month a) (arg_year a)) (salary_records db2)
               = [d_r_record st a res2]"
proof -
  have "reachable (snd (d_r_page e u1 POST f1 db0))"
    using assms(1) by (rule reachable.by_d_r_page)
  then have keys: "distinct (map rec_key (salary_records db1))"
    using assms(2) by (simp add: reachable_keys)
  from d_r_page_saved[OF assms(3)] obtain st where
    saved: "d_r_post e f2 db1 = (Saved st ms res2 sid, db2)"
    by auto
  from d_r_post_one_record[OF keys saved] obtain ex a where
    g: "d_r_gather e f2 db1 = Ready st ex a sid ms" and
    c: "calculate_salary_components e a = Inr res2" and
    one: "filter (key_match (st_id st) (arg_month a) (arg_year a)) (salary_records db2)
            = [d_r_record st a res2]"
    by blast
  have "st_id st = sid"
    using d_r_gather_Ready(3)[OF g] by (auto simp: find_Some_iff)
  with g c one d_r_gather_Ready(2)[OF g] show ?thesis by blast
qed

theorem d_r_page_upsert_witness:
  "reachable (sample_db 30000 [])
   \<and> d_r_page sample_env admin POST (d_r_form ''500'') (sample_db 30000 []) =
       (([(Salary_saved ''Asha'' 1001 ''2025-02'', ''success'')],
         Render_d_r (Some (sample_result 32000 500)) (Some 1) (Some ''2025-02'')),
        sample_db 30000 [sample_record 32000 0 500])
   \<and> d_r_page sample_env admin POST (d_r_form ''900'') (sample_db 30000 [sample_record 32000 0 500]) =
       (([(Salary_saved ''Asha'' 1001 ''2025-02'', ''success'')],
         Render_d_r (Some (sample_result 32000 900)) (Some 1) (Some ''2025-02'')),
        sample_db 30000 [sample_record 32000 0 900])
   \<and> (\<exists>st ex a.
         d_r_gather sample_env (d_r_form ''900'') (sample_db 30000 [sample_record 32000 0 500])
           = Ready st ex a 1 ''2025-02''
         \<and> st_id st = 1 \<and> parse_month sample_env ''2025-02'' = Inr (arg_year a, arg_month a)
         \<and> calculate_salary_components sample_env a = Inr (sample_result 32000 900)
         \<and> filter (key_match 1 (arg_month a) (arg_year a))
              (salary_records (sample_db 30000 [sample_record 32000 0 900]))
             = [d_r_record st a (sample_result 32000 900)])"
proof -
  have h1: "d_r_page sample_env admin POST (d_r_form ''500'') (sample_db 30000 []) =
       (([(Salary_saved ''Asha'' 1001 ''2025-02'', ''success'')],
         Render_d_r (Some (sample_result 32000 500)) (Some 1) (Some ''2025-02'')),
        sample_db 30000 [sample_record 32000 0 500])"
    using sample_first[of "''500''" 500 30000] by (simp add: sample_ints)
  have h2: "d_r_page sample_env admin POST (d_r_form ''900'') (sample_db 30000 [sample_record 32000 0 500]) =
       (([(Salary_saved ''Asha'' 1001 ''2025-02'', ''success'')],
         Render_d_r (Some (sample_result 32000 900)) (Some 1) (Some ''2025-02'')),
        sample_db 30000 [sample_record 32000 0 900])"
    using sample_again[of "''900''" 900 "sample_record 32000 0 500" 30000]
    by (simp add: sample_ints sample_record_key) (simp add: sample_record_def)
  from sample_reachable h1 h2 d_r_page_upsert[OF sample_reachable h1 h2]
  show ?thesis by (intro conjI)
qed

text \<open>
  C2. The claim: an invocation of \<^verbatim>\<open>d_r_page\<close> either persists a complete record or
  leaves the store unchanged, and a record that exists for the key is not lost when the
  insert fails. The handler commits the deletion of the existing record (line 288) before
  it adds the fresh one; when the second commit raises, the \<^verbatim>\<open>except\<close> branch rolls back
  only the insert. The request below finds a record for staff 1 and February 2025, its
  second commit fails, and the store it leaves has no record for the key.
\<close>

theorem d_r_page_failed_insert_loses_record:
  "d_r_page failing_env admin POST (d_r_form ''500'') (sample_db 30000 [sample_record 32000 2 900]) =
     (([(Error_saving SQLAlchemyError, ''error'')],
       Render_d_r (Some (sample_result 32000 500)) (Some 1) (Some ''2025-02'')),
      sample_db 30000 [])"
  using sample_failed_insert[of "''500''" 500 "sample_record 32000 2 900" 30000]
  by (simp add: sample_ints sample_record_key)

text \<open>
  C6, as stated, fails: the request below computes a net salary of -7800. The value is
  rendered and persisted as it is, and the only flash is the success message, the same
  list of flashes as for the request whose net salary is positive.
\<close>

theorem negative_net_not_flagged:
  "d_r_page sample_env admin POST (d_r_form ''40000'') (sample_db 30000 []) =
     (([(Salary_saved ''Asha'' 1001 ''2025-02'', ''success'')],
       Render_d_r (Some (sample_result 32000 40000)) (Some 1) (Some ''2025-02'')),
      sample_db 30000 [sample_record 32000 0 40000])
   \<and> res_net_salary (sample_result 32000 40000) = - 7800
   \<and> net_salary (sample_record 32000 0 40000) = Some (- 7800)
   \<and> fst (fst (d_r_page sample_env admin POST (d_r_form ''40000'') (sample_db 30000 [])))
       = fst (fst (d_r_page sample_env admin POST (d_r_form ''500'') (sample_db 30000 [])))"
  using sample_first[of "''40000''" 40000 30000] sample_first[of "''500''" 500 30000]
  by (simp add: sample_ints sample_result_def sample_record_def)

text \<open>
  C6, amended. Whenever the \<^verbatim>\<open>try\<close> body of \<^verbatim>\<open>d_r_page\<close> saves, the handler answers with
  the one success flash and renders the result the helper returned, and the record it
  appended holds the net salary of that result unchanged, whatever its sign. Nothing in
  the handler reads the sign of the net salary.
\<close>

theorem d_r_page_net_as_is:
  assumes "d_r_post e f db = (Saved st ms res sid, db')"
    and "is_authenticated u" and "is_accounts u \<or> is_admin u"
  shows "d_r_page e u POST f db =
           (([(Salary_saved (st_name st) (st_staff_id st) ms, ''success'')],
             Render_d_r (Some res) (Some sid) (Some ms)), db')
       \<and> (\<exists>kept r a. salary_records db' = kept @ [r]
             \<and> calculate_salary_components e a = Inr res
             \<and> call_args (d_r_gather e f db) = Some a
             \<and> net_salary r = Some (res_net_salary res))"
proof -
  from d_r_post_Saved[OF assms(1)] obtain ex a where
    g: "d_r_gather e f db = Ready st ex a sid ms" and
    c: "calculate_salary_components e a = Inr res" and
    s: "d_r_save e ex (d_r_record st a res) db = (None, db')"
    by blast
  have "net_salary (d_r_record st a res) = Some (res_net_salary res)"
    by (simp add: d_r_record_def)
  with d_r_save_None(1)[OF s] g c
  have "\<exists>kept r a. salary_records db' = kept @ [r]
             \<and> calculate_salary_components e a = Inr res
             \<and> call_args (d_r_gather e f db) = Some a
             \<and> net_salary r = Some (res_net_salary res)"
    by (auto simp: call_args_def)
  moreover have "d_r_page e u POST f db =
           (([(Salary_saved (st_name st) (st_staff_id st) ms, ''success'')],
             Render_d_r (Some res) (Some sid) (Some ms)), db')"
    using assms by (auto simp: d_r_page_def)
  ultimately show ?thesis by blast
qed

theorem d_r_page_net_as_is_witness:
  "d_r_post sample_env (d_r_form ''40000'') (sample_db 30000 []) =
     (Saved (asha 30000) ''2025-02'' (sample_result 32000 40000) 1,
      sample_db 30000 [sample_record 32000 0 40000])
   \<and> is_authenticated admin \<and> (is_accounts admin \<or> is_admin admin)
   \<and> d_r_page sample_env admin POST (d_r_form ''40000'') (sample_db 30000 []) =
       (([(Salary_saved (st_name (asha 30000)) (st_staff_id (asha 30000)) ''2025-02'', ''success'')],
         Render_d_r (Some (sample_result 32000 40000)) (Some 1) (Some ''2025-02'')),
        sample_db 30000 [sample_record 32000 0 40000])
   \<and> (\<exists>kept r a. salary_records (sample_db 30000 [sample_record 32000 0 40000]) = kept @ [r]
         \<and> calculate_salary_components sample_env a = Inr (sample_result 32000 40000)
         \<and> call_args (d_r_gather sample_env (d_r_form ''40000'') (sample_db 30000 [])) = Some a
         \<and> net_salary r = Some (res_net_salary (sample_result 32000 40000)))"
proof -
  have p: "d_r_post sample_env (d_r_form ''40000'') (sample_db 30000 []) =
     (Saved (asha 30000) ''2025-02'' (sample_result 32000 40000) 1,
      sample_db 30000 [sample_record 32000 0 40000])"
    using sample_post_first[of "''40000''" 40000 30000] by (simp add: sample_ints)
  have r: "is_accounts admin \<or> is_admin admin" by (simp add: admin_roles)
  note t = d_r_page_net_as_is[OF p admin_roles(1) r]
  from p admin_roles(1) r t[THEN conjunct1] t[THEN conjunct2]
  show ?thesis by (intro conjI)
qed

text \<open>
  C10. Staff numbers are assigned in sequence. In any store the handlers can produce, a
  \<^verbatim>\<open>new_staff\<close> request that adds a staff member gives it the number 1001 when the table
  is empty and the greatest number of the table plus 1 otherwise; the numbers of the table,
  read in creation order, are strictly increasing afterwards, hence pairwise different.
\<close>

theorem new_staff_sequential_ids:
  assumes "reachable db"
    and "new_staff e u POST f db = (([(Staff_added nm sid, ''success'')], pg), db')"
  shows "(\<exists>s. staffs db' = staffs db @ [s] \<and> st_staff_id s = sid)
       \<and> sid = (if staffs db = [] then 1001 else Max (set (map st_staff_id (staffs db))) + 1)
       \<and> sorted_wrt (<) (map st_staff_id (staffs db'))
       \<and> distinct (map st_staff_id (staffs db'))"
proof -
  from new_staff_added[OF assms(2)] obtain s where
    s: "staffs db' = staffs db @ [s]" "st_staff_id s = sid" "sid = next_staff_id (staffs db)"
    by blast
  have next_id: "next_staff_id (staffs db)
           = (if staffs db = [] then 1001 else Max (set (map st_staff_id (staffs db))) + 1)"
    by (cases "staffs db") (simp_all add: next_staff_id_def)
  have incr: "sorted_wrt (<) (map st_staff_id (staffs db'))"
    using ids_increasing_append[OF reachable_staff_ids[OF assms(1)], of s] s by simp
  then have "distinct (map st_staff_id (staffs db'))"
    by (rule strict_sorted_iff[THEN iffD1, THEN conjunct2])
  with s next_id incr show ?thesis by auto
qed

theorem new_staff_sequential_ids_witness:
  "reachable (sample_db 30000 [])
   \<and> new_staff sample_env admin POST (staff_form ''40000'') (sample_db 30000 []) =
       (([(Staff_added ''Asha'' 1002, ''success'')], Redirect ''routes.staff_details''),
        \<lparr>staffs = [asha 30000, (asha 40000)\<lparr>st_id := 2, st_staff_id := 1002\<rparr>],
         salary_records = []\<rparr>)
   \<and> map st_staff_id [asha 30000, (asha 40000)\<lparr>st_id := 2, st_staff_id := 1002\<rparr>] = [1001, 1002]
   \<and> (1002 :: int) = Max (set (map st_staff_id (staffs (sample_db 30000 [])))) + 1
   \<and> sorted_wrt (<) (map st_staff_id [asha 30000, (asha 40000)\<lparr>st_id := 2, st_staff_id := 1002\<rparr>])
   \<and> distinct (map st_staff_id [asha 30000, (asha 40000)\<lparr>st_id := 2, st_staff_id := 1002\<rparr>])"
  using new_staff_sequential_ids[OF sample_reachable sample_second_staff] sample_reachable
    sample_second_staff
  by (simp add: sample_db_def asha_def)

text \<open>
  C4, as stated, fails: \<^verbatim>\<open>lop_page\<close> assigns \<^verbatim>\<open>lop_days\<close> of the record it finds for the key
  (line 171). The request below meets the record \<^verbatim>\<open>d_r_page\<close> saved for staff 1 and
  February 2025 and leaves the same row with 2 days of loss of pay, every computed column
  (the net salary among them) as it was.
\<close>

theorem lop_page_updates_in_place:
  "lop_page sample_env admin POST (lop_form ''2'') [] (sample_db 30000 [sample_record 32000 0 500]) =
     (([(Lop_updated ''2025-02'', ''success'')], Render_lop ''2025-02'' 2025 2),
      sample_db 30000 [(sample_record 32000 0 500)\<lparr>lop_days := 2\<rparr>])
   \<and> (sample_record 32000 0 500)\<lparr>lop_days := 2\<rparr> \<noteq> sample_record 32000 0 500
   \<and> net_salary ((sample_record 32000 0 500)\<lparr>lop_days := 2\<rparr>) = net_salary (sample_record 32000 0 500)"
  using sample_lop_page[of "''2''" 2 "sample_record 32000 0 500" 30000]
  by (simp add: sample_ints sample_record_key blank_def is_space_def) (simp add: sample_record_def)

text \<open>
  C4, amended. What a request asks of the session about salary records is a list of
  writes: the deletion of a row, the addition of a row just constructed, the assignment
  of \<^verbatim>\<open>lop_days\<close> on a row a query returned. The records \<^verbatim>\<open>d_r_page\<close> leaves are its
  writes applied to the store, and its writes are none, or the addition of one fresh
  record for a key that has no record, or the deletion of the record the key has,
  followed or not by the addition of one fresh record: it never assigns to a stored row,
  and every record it leaves is a record of the store, in its place, or the fresh one at
  the end. \<^verbatim>\<open>lop_page\<close> does update in place: the records it leaves are its writes applied
  to the store, it deletes nothing, each of its writes assigns \<^verbatim>\<open>lop_days\<close> on the record
  the key has at that moment or adds a record, with no computed column, for a key that
  has none at that moment, and every record of the store is still there, row by row, the
  same but for \<^verbatim>\<open>lop_days\<close>. When staff rows have distinct ids and \<^verbatim>\<open>lop_page\<close> reports
  success, the record of the key of an active staff member whose field holds a number is
  afterwards the record the key had with \<^verbatim>\<open>lop_days\<close> set to that number, or the new
  record when the key had none.
\<close>

theorem records_superseded_or_lop_updated:
  "salary_records (snd (d_r_page e u mt f db))
     = fold apply_write (d_r_page_writes e u mt f db) (salary_records db)
   \<and> (d_r_page_writes e u mt f db = []
       \<or> (\<exists>st a res.
             d_r_page_writes e u mt f db = [Add_row (d_r_record st a res)]
             \<and> find (key_match (st_id st) (arg_month a) (arg_year a)) (salary_records db) = None)
       \<or> (\<exists>old st a res.
             find (key_match (st_id st) (arg_month a) (arg_year a)) (salary_records db) = Some old
             \<and> (d_r_page_writes e u mt f db = [Delete_row old]
                \<or> d_r_page_writes e u mt f db
                     = [Delete_row old, Add_row (d_r_record st a res)])))
   \<and> (\<exists>kept new. salary_records (snd (d_r_page e u mt f db)) = kept @ new
         \<and> subseq kept (salary_records db)
         \<and> (new = [] \<or> (\<exists>st a res. new = [d_r_record st a res])))
   \<and> salary_records (snd (lop_page e' u' mt' f' q' db))
       = fold apply_write (lop_page_writes e' u' mt' f' q' db) (salary_records db)
   \<and> lop_writes_ok (salary_records db) (lop_page_writes e' u' mt' f' q' db)
   \<and> (\<exists>upd fresh. salary_records (snd (lop_page e' u' mt' f' q' db)) = upd @ fresh
         \<and> list_all2 same_but_lop_days (salary_records db) upd)
   \<and> (distinct (map st_id (staffs db))
        \<and> lop_page e' u' mt' f' q' db = (([(Lop_updated s, c)], Render_lop s y m), db')
        \<and> st \<in> set (staffs db) \<and> st_active st
        \<and> form_get f' (''lop_'' @ str_int (st_id st)) = Some v \<and> v \<noteq> [] \<and> \<not> blank v
       \<longrightarrow> (\<exists>d. py_float e' v = Some d
              \<and> find (key_match (st_id st) m y) (salary_records db') =
                  Some (case find (key_match (st_id st) m y) (salary_records db) of
                          Some old \<Rightarrow> old\<lparr>lop_days := d\<rparr>
                        | None \<Rightarrow> lop_record st m y d)))"
proof (intro conjI impI)
  show "salary_records (snd (d_r_page e u mt f db))
     = fold apply_write (d_r_page_writes e u mt f db) (salary_records db)"
    by (rule d_r_page_by_writes)
  show "d_r_page_writes e u mt f db = []
       \<or> (\<exists>st a res.
             d_r_page_writes e u mt f db = [Add_row (d_r_record st a res)]
             \<and> find (key_match (st_id st) (arg_month a) (arg_year a)) (salary_records db) = None)
       \<or> (\<exists>old st a res.
             find (key_match (st_id st) (arg_month a) (arg_year a)) (salary_records db) = Some old
             \<and> (d_r_page_writes e u mt f db = [Delete_row old]
                \<or> d_r_page_writes e u mt f db
                     = [Delete_row old, Add_row (d_r_record st a res)]))"
    by (rule d_r_page_writes_cases)
  show "\<exists>kept new. salary_records (snd (d_r_page e u mt f db)) = kept @ new
         \<and> subseq kept (salary_records db)
         \<and> (new = [] \<or> (\<exists>st a res. new = [d_r_record st a res]))"
    by (rule d_r_page_shape)
  show "salary_records (snd (lop_page e' u' mt' f' q' db))
       = fold apply_write (lop_page_writes e' u' mt' f' q' db) (salary_records db)"
    by (rule lop_page_by_writes)
  show "lop_writes_ok (salary_records db) (lop_page_writes e' u' mt' f' q' db)"
    by (rule lop_page_writes_ok)
  show "\<exists>upd fresh. salary_records (snd (lop_page e' u' mt' f' q' db)) = upd @ fresh
         \<and> list_all2 same_but_lop_days (salary_records db) upd"
    by (rule lop_page_shape)
next
  assume a: "distinct (map st_id (staffs db))
        \<and> lop_page e' u' mt' f' q' db = (([(Lop_updated s, c)], Render_lop s y m), db')
        \<and> st \<in> set (staffs db) \<and> st_active st
        \<and> form_get f' (''lop_'' @ str_int (st_id st)) = Some v \<and> v \<noteq> [] \<and> \<not> blank v"
  then show "\<exists>d. py_float e' v = Some d
              \<and> find (key_match (st_id st) m y) (salary_records db') =
                  Some (case find (key_match (st_id st) m y) (salary_records db) of
                          Some old \<Rightarrow> old\<lparr>lop_days := d\<rparr>
                        | None \<Rightarrow> lop_record st m y d)"
    using lop_page_stores[of db e' u' mt' f' q' s c y m db' st v] by blast
qed

theorem records_superseded_or_lop_updated_witness:
  "d_r_page_writes sample_env admin POST (d_r_form ''900'')
       (sample_db 30000 [sample_record 32000 0 500])
     = [Delete_row (sample_record 32000 0 500), Add_row (sample_record 32000 0 900)]
   \<and> salary_records (snd (d_r_page sample_env admin POST (d_r_form ''900'')
         (sample_db 30000 [sample_record 32000 0 500])))
       = fold apply_write
           [Delete_row (sample_record 32000 0 500), Add_row (sample_record 32000 0 900)]
           [sample_record 32000 0 500]
   \<and> lop_page_writes sample_env admin POST (lop_form ''2'') []
         (sample_db 30000 [sample_record 32000 0 500])
       = [Assign_lop_days (sample_record 32000 0 500) 2]
   \<and> distinct (map st_id (staffs (sample_db 30000 [sample_record 32000 0 500])))
   \<and> lop_page sample_env admin POST (lop_form ''2'') []
         (sample_db 30000 [sample_record 32000 0 500])
       = (([(Lop_updated ''2025-02'', ''success'')], Render_lop ''2025-02'' 2025 2),
          sample_db 30000 [(sample_record 32000 0 500)\<lparr>lop_days := 2\<rparr>])
   \<and> asha 30000 \<in> set (staffs (sample_db 30000 [sample_record 32000 0 500]))
   \<and> st_active (asha 30000)
   \<and> form_get (lop_form ''2'') (''lop_'' @ str_int (st_id (asha 30000))) = Some ''2''
   \<and> ''2'' \<noteq> '''' \<and> \<not> blank ''2''
   \<and> py_float sample_env ''2'' = Some 2
   \<and> find (key_match (st_id (asha 30000)) 2 2025)
         (salary_records (sample_db 30000 [(sample_record 32000 0 500)\<lparr>lop_days := 2\<rparr>]))
       = Some ((sample_record 32000 0 500)\<lparr>lop_days := 2\<rparr>)"
proof -
  let ?old = "sample_record 32000 0 500"
  let ?db = "sample_db 30000 [?old]"
  have key: "find (key_match 1 2 2025) [?old] = Some ?old"
    by (simp add: sample_record_key)
  have w1: "d_r_page_writes sample_env admin POST (d_r_form ''900'') ?db
     = [Delete_row ?old, Add_row (sample_record 32000 0 900)]"
    using sample_d_r_page_writes[of "''900''" 900 30000 "[?old]"] key
    by (simp add: sample_ints d_r_writes_def sample_env_builtins) (simp add: sample_record_def)
  have w2: "lop_page_writes sample_env admin POST (lop_form ''2'') [] ?db
       = [Assign_lop_days ?old 2]"
    using sample_lop_page_writes[of "''2''" 2 30000 "[?old]"] key
    by (simp add: sample_ints blank_def is_space_def lop_write_def sample_staff_ids)
  have a: "distinct (map st_id (staffs ?db))" by (rule sample_staff_ids)
  have b: "lop_page sample_env admin POST (lop_form ''2'') [] ?db
       = (([(Lop_updated ''2025-02'', ''success'')], Render_lop ''2025-02'' 2025 2),
          sample_db 30000 [?old\<lparr>lop_days := 2\<rparr>])"
    using sample_lop_page[of "''2''" 2 ?old 30000]
    by (simp add: sample_ints sample_record_key blank_def is_space_def)
  have c: "asha 30000 \<in> set (staffs ?db)" and d: "st_active (asha 30000)"
    by (rule sample_staff_ids)+
  have e: "form_get (lop_form ''2'') (''lop_'' @ str_int (st_id (asha 30000))) = Some ''2''"
    by (rule sample_lop_field)
  have g: "''2'' \<noteq> ''''" and h: "\<not> blank ''2''"
    by (simp_all add: blank_def is_space_def)
  have i: "py_float sample_env ''2'' = Some 2"
    by (simp add: sample_env_builtins sample_ints)
  note t = records_superseded_or_lop_updated[of sample_env admin POST "d_r_form ''900''" ?db
      sample_env admin POST "lop_form ''2''" "[]" "''2025-02''" "''success''" 2025 2
      "sample_db 30000 [?old\<lparr>lop_days := 2\<rparr>]" "asha 30000" "''2''"]
  have sr: "salary_records ?db = [?old]" by (simp add: sample_db_def)
  have s1: "salary_records (snd (d_r_page sample_env admin POST (d_r_form ''900'') ?db))
       = fold apply_write [Delete_row ?old, Add_row (sample_record 32000 0 900)] [?old]"
    using t[THEN conjunct1] unfolding w1 sr .
  have "\<exists>d. py_float sample_env ''2'' = Some d
          \<and> find (key_match (st_id (asha 30000)) 2 2025)
                (salary_records (sample_db 30000 [?old\<lparr>lop_days := 2\<rparr>])) =
              Some (case find (key_match (st_id (asha 30000)) 2 2025) (salary_records ?db) of
                      Some old \<Rightarrow> old\<lparr>lop_days := d\<rparr>
                    | None \<Rightarrow> lop_record (asha 30000) 2 2025 d)"
    by (rule t[THEN conjunct2, THEN conjunct2, THEN conjunct2, THEN conjunct2,
          THEN conjunct2, THEN conjunct2, THEN mp]) (intro conjI a b c d e g h)
  with i have s2: "find (key_match (st_id (asha 30000)) 2 2025)
         (salary_records (sample_db 30000 [?old\<lparr>lop_days := 2\<rparr>]))
       = Some (?old\<lparr>lop_days := 2\<rparr>)"
    unfolding sr by (auto simp add: sample_staff_ids sample_record_key)
  from w1 s1 w2 a b c d e g h i s2 show ?thesis by (intro conjI)
qed




text \<open>
  C8, as stated, fails in its last part: the zero defaults of the deductions and the
  empty reimbursement list are not the only silent defaults. The form below gives all
  seven deductions and a reimbursement, the store has no salary record, and the helper is
  called with 0 days of loss of pay.
\<close>

theorem lop_days_defaults_silently:
  "map (form_get (d_r_form ''500''))
       [''income_tax'', ''loan'', ''advance'', ''uniform'', ''cd'', ''hostel'', ''misc'']
     = [Some ''500'', Some ''0'', Some ''0'', Some ''0'', Some ''0'', Some ''0'', Some ''0'']
   \<and> form_getlist (d_r_form ''500'') ''reimbursement_amount[]'' = [''200'']
   \<and> salary_records (sample_db 30000 []) = []
   \<and> call_args (d_r_gather sample_env (d_r_form ''500'') (sample_db 30000 []))
       = Some (sample_args 32000 0 500)
   \<and> arg_lop_days (sample_args 32000 0 500) = 0"
proof -
  have a: "map (form_get (d_r_form ''500''))
       [''income_tax'', ''loan'', ''advance'', ''uniform'', ''cd'', ''hostel'', ''misc'']
     = [Some ''500'', Some ''0'', Some ''0'', Some ''0'', Some ''0'', Some ''0'', Some ''0'']"
    by (rule sample_form_fields(3))
  have b: "form_getlist (d_r_form ''500'') ''reimbursement_amount[]'' = [''200'']"
    by (rule sample_form_fields(4))
  have c: "salary_records (sample_db 30000 []) = []"
    by (simp add: sample_db_def)
  have d: "call_args (d_r_gather sample_env (d_r_form ''500'') (sample_db 30000 []))
       = Some (sample_args 32000 0 500)"
    using sample_gather[of sample_env "''500''" 500 30000 "[]"]
    by (simp add: sample_env_builtins sample_ints call_args_def)
  have e: "arg_lop_days (sample_args 32000 0 500) = 0"
    by (simp add: sample_args_def)
  from a b c d e show ?thesis by (intro conjI)
qed

text \<open>
  C8, amended. When the selection parses, the staff member exists, none of the seven
  deduction fields is in the form and the form has no reimbursement entry, \<^verbatim>\<open>d_r_page\<close>
  raises nothing and calls the helper with the seven deductions 0 and the empty
  reimbursement sequence. Whenever \<^verbatim>\<open>d_r_page\<close> gets as far as calling the helper, every
  absent deduction is passed as 0 and an absent reimbursement list as the empty sequence;
  besides these, the days of loss of pay are 0 when the key has no record, and absent
  allowances count as 0 in the gross salary. The total of the reimbursements is the
  helper's: with the helper of the specification, a request without reimbursement
  entries that saves answers with total reimbursements 0 and stores 0 on the record, and
  \<open>compute\<close> gives total reimbursements 0 for the empty sequence.
\<close>

theorem zero_defaults:
  "(form_get f ''employee_name'' = Some sid_str \<and> sid_str \<noteq> []
      \<and> form_get f ''salary_month'' = Some ms' \<and> ms' \<noteq> []
      \<and> parse_month e ms' = Inr (y, m) \<and> py_int e sid_str = Some sid'
      \<and> find (\<lambda>s. st_id s = sid') (staffs db) = Some st'
      \<and> form_get f ''income_tax'' = None \<and> form_get f ''loan'' = None
      \<and> form_get f ''advance'' = None \<and> form_get f ''uniform'' = None
      \<and> form_get f ''cd'' = None \<and> form_get f ''hostel'' = None
      \<and> form_get f ''misc'' = None
      \<and> form_getlist f ''reimbursement_amount[]'' = []
     \<longrightarrow> call_args (d_r_gather e f db) =
           Some \<lparr>arg_gross_salary = st_base_salary st' + or_zero (st_allowances st'),
                 arg_lop_days = (case find (key_match (st_id st') m y) (salary_records db) of
                                   None \<Rightarrow> 0 | Some r \<Rightarrow> lop_days r),
                 arg_deductions = \<lparr>d_it = 0, d_loan = 0, d_advance = 0, d_uniform = 0,
                                    d_cd = 0, d_hostel = 0, d_misc = 0\<rparr>,
                 arg_reimbursements = [], arg_month = m, arg_year = y\<rparr>)
   \<and> (d_r_gather e f db = Ready st ex a sid ms \<longrightarrow>
        (form_get f ''income_tax'' = None \<longrightarrow> d_it (arg_deductions a) = 0)
        \<and> (form_get f ''loan'' = None \<longrightarrow> d_loan (arg_deductions a) = 0)
        \<and> (form_get f ''advance'' = None \<longrightarrow> d_advance (arg_deductions a) = 0)
        \<and> (form_get f ''uniform'' = None \<longrightarrow> d_uniform (arg_deductions a) = 0)
        \<and> (form_get f ''cd'' = None \<longrightarrow> d_cd (arg_deductions a) = 0)
        \<and> (form_get f ''hostel'' = None \<longrightarrow> d_hostel (arg_deductions a) = 0)
        \<and> (form_get f ''misc'' = None \<longrightarrow> d_misc (arg_deductions a) = 0)
        \<and> (form_getlist f ''reimbursement_amount[]'' = [] \<longrightarrow> arg_reimbursements a = [])
        \<and> (find (key_match (st_id st) (arg_month a) (arg_year a)) (salary_records db) = None
              \<longrightarrow> arg_lop_days a = 0)
        \<and> (st_allowances st = None \<longrightarrow> arg_gross_salary a = st_base_salary st + 0))
   \<and> (calculate_salary_components es = spec_helper p
        \<and> form_getlist fs ''reimbursement_amount[]'' = []
        \<and> d_r_page es us mts fs dbs = (([(Salary_saved n i mss, c)], pg), dbs')
       \<longrightarrow> (\<exists>res sidr kept r. pg = Render_d_r (Some res) (Some sidr) (Some mss)
              \<and> res_total_reimbursements res = 0
              \<and> salary_records dbs' = kept @ [r] \<and> total_reimbursements r = Some 0))
   \<and> (compute p g l d [] mc yc = Inr b \<longrightarrow> b_total_reimbursements b = 0)"
proof (intro conjI impI)
  assume a: "form_get f ''employee_name'' = Some sid_str \<and> sid_str \<noteq> []
      \<and> form_get f ''salary_month'' = Some ms' \<and> ms' \<noteq> []
      \<and> parse_month e ms' = Inr (y, m) \<and> py_int e sid_str = Some sid'
      \<and> find (\<lambda>s. st_id s = sid') (staffs db) = Some st'
      \<and> form_get f ''income_tax'' = None \<and> form_get f ''loan'' = None
      \<and> form_get f ''advance'' = None \<and> form_get f ''uniform'' = None
      \<and> form_get f ''cd'' = None \<and> form_get f ''hostel'' = None
      \<and> form_get f ''misc'' = None
      \<and> form_getlist f ''reimbursement_amount[]'' = []"
  then have pd: "parse_deductions e f =
      Inr \<lparr>d_it = 0, d_loan = 0, d_advance = 0, d_uniform = 0, d_cd = 0, d_hostel = 0, d_misc = 0\<rparr>"
    by (simp add: parse_deductions_def float_field_def bind_err_def)
  from a have pr: "parse_reimbursements e f = Inr []"
    by (simp add: parse_reimbursements_empty)
  from a have "d_r_gather e f db =
           Ready st' (find (key_match (st_id st') m y) (salary_records db))
             \<lparr>arg_gross_salary = st_base_salary st' + or_zero (st_allowances st'),
              arg_lop_days = (case find (key_match (st_id st') m y) (salary_records db) of
                                None \<Rightarrow> 0 | Some r \<Rightarrow> lop_days r),
              arg_deductions = \<lparr>d_it = 0, d_loan = 0, d_advance = 0, d_uniform = 0,
                                 d_cd = 0, d_hostel = 0, d_misc = 0\<rparr>,
              arg_reimbursements = [], arg_month = m, arg_year = y\<rparr>
             sid' ms'"
    by (intro d_r_gather_ReadyI[OF _ _ _ _ _ _ _ pd pr, of sid_str]) simp_all
  then show "call_args (d_r_gather e f db) =
           Some \<lparr>arg_gross_salary = st_base_salary st' + or_zero (st_allowances st'),
                 arg_lop_days = (case find (key_match (st_id st') m y) (salary_records db) of
                                   None \<Rightarrow> 0 | Some r \<Rightarrow> lop_days r),
                 arg_deductions = \<lparr>d_it = 0, d_loan = 0, d_advance = 0, d_uniform = 0,
                                    d_cd = 0, d_hostel = 0, d_misc = 0\<rparr>,
                 arg_reimbursements = [], arg_month = m, arg_year = y\<rparr>"
    by (simp add: call_args_def)
next
  assume g: "d_r_gather e f db = Ready st ex a sid ms"
  note d = parse_deductions_Inr[OF d_r_gather_Ready(7)[OF g]]
  show "form_get f ''income_tax'' = None \<Longrightarrow> d_it (arg_deductions a) = 0"
    using d(1) by (rule float_field_Inr)
  show "form_get f ''loan'' = None \<Longrightarrow> d_loan (arg_deductions a) = 0"
    using d(2) by (rule float_field_Inr)
  show "form_get f ''advance'' = None \<Longrightarrow> d_advance (arg_deductions a) = 0"
    using d(3) by (rule float_field_Inr)
  show "form_get f ''uniform'' = None \<Longrightarrow> d_uniform (arg_deductions a) = 0"
    using d(4) by (rule float_field_Inr)
  show "form_get f ''cd'' = None \<Longrightarrow> d_cd (arg_deductions a) = 0"
    using d(5) by (rule float_field_Inr)
  show "form_get f ''hostel'' = None \<Longrightarrow> d_hostel (arg_deductions a) = 0"
    using d(6) by (rule float_field_Inr)
  show "form_get f ''misc'' = None \<Longrightarrow> d_misc (arg_deductions a) = 0"
    using d(7) by (rule float_field_Inr)
  show "form_getlist f ''reimbursement_amount[]'' = [] \<Longrightarrow> arg_reimbursements a = []"
    using d_r_gather_Ready(8)[OF g] by (simp add: parse_reimbursements_empty)
  show "find (key_match (st_id st) (arg_month a) (arg_year a)) (salary_records db) = None
          \<Longrightarrow> arg_lop_days a = 0"
    using d_r_gather_Ready(4,5)[OF g] by simp
  show "st_allowances st = None \<Longrightarrow> arg_gross_salary a = st_base_salary st + 0"
    using d_r_gather_Ready(6)[OF g] by (simp add: or_zero_def)
next
  assume a: "calculate_salary_components es = spec_helper p
        \<and> form_getlist fs ''reimbursement_amount[]'' = []
        \<and> d_r_page es us mts fs dbs = (([(Salary_saved n i mss, c)], pg), dbs')"
  then obtain st ex a res sid
    where g: "d_r_gather es fs dbs = Ready st ex a sid mss"
      and h: "spec_helper p a = Inr res"
      and pg: "pg = Render_d_r (Some res) (Some sid) (Some mss)"
      and s: "salary_records dbs' =
               (case ex of None \<Rightarrow> salary_records dbs
                | Some old \<Rightarrow> remove1 old (salary_records dbs)) @ [d_r_record st a res]"
    using d_r_page_saved_record[of es us mts fs dbs n i mss c pg dbs'] by auto
  from d_r_gather_Ready(8)[OF g] a have "arg_reimbursements a = []"
    by (simp add: parse_reimbursements_empty)
  with h have z: "res_total_reimbursements res = 0" by (rule spec_helper_no_reimbursements)
  then have "total_reimbursements (d_r_record st a res) = Some 0"
    by (simp add: d_r_record_def)
  with pg z s show "\<exists>res sidr kept r. pg = Render_d_r (Some res) (Some sidr) (Some mss)
              \<and> res_total_reimbursements res = 0
              \<and> salary_records dbs' = kept @ [r] \<and> total_reimbursements r = Some 0"
    by blast
next
  assume "compute p g l d [] mc yc = Inr b"
  then show "b_total_reimbursements b = 0" by (rule compute_no_reimbursements)
qed

theorem zero_defaults_witness:
  "form_get bare_form ''employee_name'' = Some ''1'' \<and> ''1'' \<noteq> ''''
   \<and> form_get bare_form ''salary_month'' = Some ''2025-02'' \<and> ''2025-02'' \<noteq> ''''
   \<and> parse_month sample_env ''2025-02'' = Inr (2025, 2)
   \<and> py_int sample_env ''1'' = Some 1
   \<and> find (\<lambda>s. st_id s = 1)
         (staffs \<lparr>staffs = [(asha 30000)\<lparr>st_allowances := None\<rparr>], salary_records = []\<rparr>)
       = Some ((asha 30000)\<lparr>st_allowances := None\<rparr>)
   \<and> form_get bare_form ''income_tax'' = None \<and> form_get bare_form ''loan'' = None
   \<and> form_get bare_form ''advance'' = None \<and> form_get bare_form ''uniform'' = None
   \<and> form_get bare_form ''cd'' = None \<and> form_get bare_form ''hostel'' = None
   \<and> form_get bare_form ''misc'' = None
   \<and> form_getlist bare_form ''reimbursement_amount[]'' = []
   \<and> st_allowances ((asha 30000)\<lparr>st_allowances := None\<rparr>) = None
   \<and> find (key_match 1 2 2025) [] = (None :: int salary_record option)
   \<and> d_r_gather sample_env bare_form
        \<lparr>staffs = [(asha 30000)\<lparr>st_allowances := None\<rparr>], salary_records = []\<rparr> =
       Ready ((asha 30000)\<lparr>st_allowances := None\<rparr>) None
         \<lparr>arg_gross_salary = 30000, arg_lop_days = 0,
          arg_deductions = \<lparr>d_it = 0, d_loan = 0, d_advance = 0, d_uniform = 0, d_cd = 0,
                             d_hostel = 0, d_misc = 0\<rparr>,
          arg_reimbursements = [], arg_month = 2, arg_year = 2025\<rparr>
         1 ''2025-02''
   \<and> call_args (d_r_gather sample_env bare_form
        \<lparr>staffs = [(asha 30000)\<lparr>st_allowances := None\<rparr>], salary_records = []\<rparr>) =
       Some \<lparr>arg_gross_salary = 30000, arg_lop_days = 0,
          arg_deductions = \<lparr>d_it = 0, d_loan = 0, d_advance = 0, d_uniform = 0, d_cd = 0,
                             d_hostel = 0, d_misc = 0\<rparr>,
          arg_reimbursements = [], arg_month = 2, arg_year = 2025\<rparr>
   \<and> calculate_salary_components (spec_env sample_params) = spec_helper sample_params
   \<and> d_r_page (spec_env sample_params) admin POST bare_form
         \<lparr>staffs = [meena], salary_records = []\<rparr> =
       (([(Salary_saved ''Meena'' 1001 ''2025-02'', ''success'')],
         Render_d_r (Some meena_result) (Some 1) (Some ''2025-02'')),
        \<lparr>staffs = [meena], salary_records = [d_r_record meena meena_args meena_result]\<rparr>)
   \<and> res_total_reimbursements meena_result = 0
   \<and> total_reimbursements (d_r_record meena meena_args meena_result) = Some 0
   \<and> compute sample_params 30000 0
         \<lparr>d_it = 0, d_loan = 0, d_advance = 0, d_uniform = 0, d_cd = 0, d_hostel = 0, d_misc = 0\<rparr>
         [] 2 2025 =
       Inr \<lparr>b_gross_salary = 30000, b_lop_amount = 0, b_epf = 3600, b_esi = 0,
            b_deductions = \<lparr>d_it = 0, d_loan = 0, d_advance = 0, d_uniform = 0, d_cd = 0,
                             d_hostel = 0, d_misc = 0\<rparr>,
            b_total_deductions = 3600, b_total_reimbursements = 0, b_net_salary = 26400\<rparr>
   \<and> b_total_reimbursements
         \<lparr>b_gross_salary = 30000, b_lop_amount = 0, b_epf = 3600, b_esi = 0,
          b_deductions = \<lparr>d_it = 0, d_loan = 0, d_advance = 0, d_uniform = 0, d_cd = 0,
                           d_hostel = 0, d_misc = 0\<rparr>,
          b_total_deductions = 3600, b_total_reimbursements = 0, b_net_salary = 26400\<rparr> = 0"
proof -
  let ?st = "(asha 30000)\<lparr>st_allowances := None\<rparr>"
  let ?db = "\<lparr>staffs = [?st], salary_records = []\<rparr>"
  let ?z = "\<lparr>d_it = 0, d_loan = 0, d_advance = 0, d_uniform = 0, d_cd = 0,
             d_hostel = 0, d_misc = 0 :: int\<rparr>"
  let ?a = "\<lparr>arg_gross_salary = 30000, arg_lop_days = 0, arg_deductions = ?z,
            arg_reimbursements = [], arg_month = 2, arg_year = 2025 :: int\<rparr>"
  let ?zr = "\<lparr>d_it = 0, d_loan = 0, d_advance = 0, d_uniform = 0, d_cd = 0,
              d_hostel = 0, d_misc = 0 :: rat\<rparr>"
  let ?b = "\<lparr>b_gross_salary = 30000, b_lop_amount = 0, b_epf = 3600, b_esi = 0,
            b_deductions = ?zr,
            b_total_deductions = 3600, b_total_reimbursements = 0, b_net_salary = 26400\<rparr>"
  let ?dbm = "\<lparr>staffs = [meena], salary_records = []\<rparr>"
  let ?dbm' = "\<lparr>staffs = [meena], salary_records = [d_r_record meena meena_args meena_result]\<rparr>"
  let ?pg = "Render_d_r (Some meena_result) (Some 1) (Some ''2025-02'')"
  note t = zero_defaults[where f = bare_form and e = sample_env and db = ?db
      and sid_str = "''1''" and ms' = "''2025-02''" and y = 2025 and m = 2 and sid' = 1
      and st' = ?st and st = ?st and ex = None and a = ?a and sid = 1 and ms = "''2025-02''"
      and es = "spec_env sample_params" and p = sample_params and fs = bare_form
      and us = admin and mts = POST and dbs = ?dbm and n = "''Meena''" and i = 1001
      and mss = "''2025-02''" and c = "''success''" and pg = ?pg and dbs' = ?dbm'
      and g = 30000 and l = 0 and d = ?zr and mc = 2 and yc = 2025 and b = ?b]
  have p1: "form_get bare_form ''employee_name'' = Some ''1''" and p2: "''1'' \<noteq> ''''"
    and p3: "form_get bare_form ''salary_month'' = Some ''2025-02''" and p4: "''2025-02'' \<noteq> ''''"
    by (simp_all add: bare_form_fields)
  have p5: "parse_month sample_env ''2025-02'' = Inr (2025, 2)"
    by (simp add: sample_month sample_env_builtins)
  have p6: "py_int sample_env ''1'' = Some 1"
    by (simp add: sample_env_builtins sample_ints)
  have p7: "find (\<lambda>s. st_id s = 1) (staffs ?db) = Some ?st"
    by (simp add: asha_def)
  have q1: "form_get bare_form ''income_tax'' = None" and q2: "form_get bare_form ''loan'' = None"
    and q3: "form_get bare_form ''advance'' = None" and q4: "form_get bare_form ''uniform'' = None"
    and q5: "form_get bare_form ''cd'' = None" and q6: "form_get bare_form ''hostel'' = None"
    and q7: "form_get bare_form ''misc'' = None"
    and q8: "form_getlist bare_form ''reimbursement_amount[]'' = []"
    by (simp_all add: bare_form_fields)
  have r1: "st_allowances ?st = None" by simp
  have r2: "find (key_match 1 2 2025) [] = (None :: int salary_record option)" by simp
  have g: "d_r_gather sample_env bare_form ?db = Ready ?st None ?a 1 ''2025-02''"
    using bare_gather[of ?st] by (simp add: asha_def or_zero_def)
  have ca: "call_args (d_r_gather sample_env bare_form ?db) = Some ?a"
    using t[THEN conjunct1, THEN mp, OF conjI[OF p1 conjI[OF p2 conjI[OF p3 conjI[OF p4
        conjI[OF p5 conjI[OF p6 conjI[OF p7 conjI[OF q1 conjI[OF q2 conjI[OF q3 conjI[OF q4
        conjI[OF q5 conjI[OF q6 conjI[OF q7 q8]]]]]]]]]]]]]]]
    by (simp add: asha_def or_zero_def)
  have h: "calculate_salary_components (spec_env sample_params) = spec_helper sample_params"
    by (rule spec_env_builtins)
  have pg: "d_r_page (spec_env sample_params) admin POST bare_form ?dbm =
       (([(Salary_saved ''Meena'' 1001 ''2025-02'', ''success'')], ?pg), ?dbm')"
    by (rule meena_page)
  from t[THEN conjunct2, THEN conjunct2, THEN conjunct1, THEN mp, OF conjI[OF h conjI[OF q8 pg]]]
  have z1: "res_total_reimbursements meena_result = 0"
    and z2: "total_reimbursements (d_r_record meena meena_args meena_result) = Some 0"
    by auto
  have cm: "compute sample_params 30000 0 ?zr [] 2 2025 = Inr ?b" by (rule meena_compute)
  have z3: "b_total_reimbursements ?b = 0"
    by (rule t[THEN conjunct2, THEN conjunct2, THEN conjunct2, THEN mp, OF cm])
  from p1 p2 p3 p4 p5 p6 p7 q1 q2 q3 q4 q5 q6 q7 q8 r1 r2 g ca h pg z1 z2 cm z3
  show ?thesis by (intro conjI)
qed



text \<open>
  C3, on \<open>compute\<close> as the specification describes it (the code of the helper is not
  among the sources). For valid input, that is a gross salary that is not negative and
  days of loss of pay between 0 and the day count of the month, \<open>compute\<close> returns a
  breakdown, and in it the net salary is the gross salary less the total deductions plus
  the total reimbursements, the total deductions are the loss-of-pay amount, EPF, ESI and
  the seven named deductions added up, and the total reimbursements are the sum of the
  reimbursement sequence. This holds for every rate, ceiling, base and rounding.
\<close>

theorem compute_net_identity:
  assumes "0 \<le> gross" and "0 \<le> lop" and "days_in_month y m = Inr ndays"
    and "lop \<le> of_nat ndays"
  shows "\<exists>b. compute p gross lop ded reimb m y = Inr b
       \<and> b_net_salary b = b_gross_salary b - b_total_deductions b + b_total_reimbursements b
       \<and> b_total_deductions b
           = b_lop_amount b + b_epf b + b_esi b
             + (d_it ded + d_loan ded + d_advance ded + d_uniform ded + d_cd ded + d_hostel ded
                + d_misc ded)
       \<and> b_total_reimbursements b = sum_list reimb
       \<and> b_gross_salary b = gross \<and> b_deductions b = ded"
  using assms by (simp add: compute_def Let_def sum_named_def not_less[symmetric])

theorem compute_net_identity_witness:
  "(0 :: rat) \<le> 30000 \<and> (0 :: rat) \<le> 2 \<and> days_in_month 2025 4 = Inr 30
   \<and> (2 :: rat) \<le> of_nat 30
   \<and> compute sample_params 30000 2 scenario_deductions [200] 4 2025 =
       Inr \<lparr>b_gross_salary = 30000, b_lop_amount = 2000, b_epf = 3600, b_esi = 0,
            b_deductions = scenario_deductions, b_total_deductions = 6100,
            b_total_reimbursements = 200, b_net_salary = 24100\<rparr>
   \<and> (24100 :: rat) = 30000 - 6100 + 200
   \<and> (6100 :: rat) = 2000 + 3600 + 0 + (500 + 0 + 0 + 0 + 0 + 0 + 0)"
proof -
  have a: "(0 :: rat) \<le> 30000" and b: "(0 :: rat) \<le> 2" and d: "(2 :: rat) \<le> of_nat 30"
    by simp_all
  from compute_net_identity[OF a b april_2025 d, of sample_params scenario_deductions "[200]"]
  obtain br where
    br: "compute sample_params 30000 2 scenario_deductions [200] 4 2025 = Inr br"
    by blast
  have "compute sample_params 30000 2 scenario_deductions [200] 4 2025 =
       Inr \<lparr>b_gross_salary = 30000, b_lop_amount = 2000, b_epf = 3600, b_esi = 0,
            b_deductions = scenario_deductions, b_total_deductions = 6100,
            b_total_reimbursements = 200, b_net_salary = 24100\<rparr>"
    using scenario_lop_amount
    by (simp add: compute_def april_2025 sample_params_def Let_def sum_named_def
        scenario_deductions_def)
  with a b d april_2025 show ?thesis by simp
qed

text \<open>
  C7, on \<open>find_slab\<close> as the specification describes it (no source file holds a slab
  lookup). The slabs are scanned in ascending \<open>range_from\<close> order, a rearrangement of the
  slabs given. If some slab covers the amount, the result is the tax of the first slab of
  that order which covers it: no slab before it does. If none covers it, the result is 0.
  \<open>covers\<close> is the bound convention, the same for every slab.
\<close>

theorem find_slab_first_match:
  "sorted (map range_from (sort_key range_from slabs))
   \<and> mset (sort_key range_from slabs) = mset slabs
   \<and> (if \<exists>s \<in> set slabs. covers s amount
       then \<exists>i < length slabs.
              covers (sort_key range_from slabs ! i) amount
              \<and> (\<forall>j < i. \<not> covers (sort_key range_from slabs ! j) amount)
              \<and> find_slab covers amount slabs = tax_amount (sort_key range_from slabs ! i)
       else find_slab covers amount slabs = 0)"
proof (intro conjI)
  let ?ordered = "sort_key range_from slabs"
  show "sorted (map range_from ?ordered)" by (rule sorted_sort_key)
  show "mset ?ordered = mset slabs" by (rule mset_sort)
  show "if \<exists>s \<in> set slabs. covers s amount
       then \<exists>i < length slabs.
              covers (?ordered ! i) amount
              \<and> (\<forall>j < i. \<not> covers (?ordered ! j) amount)
              \<and> find_slab covers amount slabs = tax_amount (?ordered ! i)
       else find_slab covers amount slabs = 0"
  proof (cases "find (\<lambda>s. covers s amount) ?ordered")
    case None
    then have "\<not> (\<exists>s \<in> set slabs. covers s amount)"
      by (auto simp: find_None_iff)
    moreover from None have "find_slab covers amount slabs = 0"
      by (simp add: find_slab_def scan_slabs_find)
    ultimately show ?thesis by simp
  next
    case (Some s)
    then obtain i where i: "i < length ?ordered" "covers (?ordered ! i) amount"
      "s = ?ordered ! i" "\<forall>j < i. \<not> covers (?ordered ! j) amount"
      by (auto simp: find_Some_iff)
    from i(1,2) have "\<exists>s \<in> set slabs. covers s amount"
      by (metis nth_mem set_sort)
    moreover from Some i(3) have "find_slab covers amount slabs = tax_amount (?ordered ! i)"
      by (simp add: find_slab_def scan_slabs_find)
    ultimately show ?thesis using i(1,2,4) by auto
  qed
qed

theorem find_slab_first_match_witness:
  "(\<exists>s \<in> set spec_slabs. covers_closed s 25000)
   \<and> (\<exists>i < length spec_slabs.
         covers_closed (sort_key range_from spec_slabs ! i) 25000
         \<and> (\<forall>j < i. \<not> covers_closed (sort_key range_from spec_slabs ! j) 25000)
         \<and> find_slab covers_closed 25000 spec_slabs
             = tax_amount (sort_key range_from spec_slabs ! i))
   \<and> find_slab covers_closed 25000 spec_slabs = 200
   \<and> find_slab covers_closed 10000 spec_slabs = 0
   \<and> find_slab covers_closed 10001 spec_slabs = 150
   \<and> \<not> (\<exists>s \<in> set [\<lparr>range_from = 20001 :: enat, range_to = \<infinity>, tax_amount = 200 :: int\<rparr>].
           covers_closed s 5)
   \<and> find_slab covers_closed 5
         [\<lparr>range_from = 20001 :: enat, range_to = \<infinity>, tax_amount = 200 :: int\<rparr>] = 0"
proof -
  have some: "\<exists>s \<in> set spec_slabs. covers_closed s 25000"
    by (simp add: spec_slabs_def covers_closed_def numeral_eq_enat)
  have none: "\<not> (\<exists>s \<in> set [\<lparr>range_from = 20001 :: enat, range_to = \<infinity>, tax_amount = 200 :: int\<rparr>].
           covers_closed s 5)"
    by (simp add: covers_closed_def numeral_eq_enat)
  from find_slab_first_match[of spec_slabs covers_closed 25000] some
  have first: "\<exists>i < length spec_slabs.
         covers_closed (sort_key range_from spec_slabs ! i) 25000
         \<and> (\<forall>j < i. \<not> covers_closed (sort_key range_from spec_slabs ! j) 25000)
         \<and> find_slab covers_closed 25000 spec_slabs
             = tax_amount (sort_key range_from spec_slabs ! i)"
    by (simp only: if_True)
  from find_slab_first_match[of
      "[\<lparr>range_from = 20001 :: enat, range_to = \<infinity>, tax_amount = 200 :: int\<rparr>]" covers_closed 5]
    none
  have zero: "find_slab covers_closed 5
         [\<lparr>range_from = 20001 :: enat, range_to = \<infinity>, tax_amount = 200 :: int\<rparr>] = 0"
    by (simp only: if_False)
  from some first spec_slabs_values(3,1,2) none zero show ?thesis by (intro conjI)
qed

end
